theory Spec2Isabelle
  imports
    Complex_Main
    "HOL-Library.AList"
    "HOL-Library.Char_ord"
    "HOL-Library.List_Lexorder"
    "HOL-Library.Multiset"
begin

section \<open>Python values, exceptions and strings\<close>

text \<open>
  The wellness coach is a Python program. Its dictionaries are association lists in
  insertion order (\<open>d[k] = v\<close> is \<open>AList.update k v d\<close>, \<open>d.get(k)\<close> is
  \<open>map_of d k\<close>), an exception is the left summand of a sum, and a string is a list of
  ASCII characters: \<open>lower\<close>, \<open>strip\<close> and \<open>title\<close> below are Python's methods on
  strings of code points below 128.
\<close>

datatype pyexc =
    KeyError | IndexError | TypeError | ValueError | AttributeError | OverflowError
  | JSONDecodeError | DuplicateIdError | NotFoundError

definition ebind :: "pyexc + 'a \<Rightarrow> ('a \<Rightarrow> pyexc + 'b) \<Rightarrow> pyexc + 'b" where
  "ebind m f = (case m of Inl e \<Rightarrow> Inl e | Inr x \<Rightarrow> f x)"

datatype json =
    JNull
  | JBool bool
  | JNum real
  | JStr string
  | JArr "json list"
  | JObj "(string \<times> json) list"

type_synonym pydict = "(string \<times> json) list"

definition whitespace :: "char list" where
  "whitespace = [CHR 0x09, CHR 0x0A, CHR 0x0B, CHR 0x0C, CHR 0x0D,
                 CHR 0x1C, CHR 0x1D, CHR 0x1E, CHR 0x1F, CHR 0x20]"

definition is_space :: "char \<Rightarrow> bool" where
  "is_space c = (c \<in> set whitespace)"

definition ascii_uppercase :: string where
  "ascii_uppercase = ''ABCDEFGHIJKLMNOPQRSTUVWXYZ''"

definition ascii_lowercase :: string where
  "ascii_lowercase = ''abcdefghijklmnopqrstuvwxyz''"

definition is_alpha :: "char \<Rightarrow> bool" where
  "is_alpha c = (c \<in> set ascii_lowercase \<or> c \<in> set ascii_uppercase)"

definition lower_char :: "char \<Rightarrow> char" where
  "lower_char c =
     (case map_of (zip ascii_uppercase ascii_lowercase) c of Some d \<Rightarrow> d | None \<Rightarrow> c)"

definition upper_char :: "char \<Rightarrow> char" where
  "upper_char c =
     (case map_of (zip ascii_lowercase ascii_uppercase) c of Some d \<Rightarrow> d | None \<Rightarrow> c)"

definition lower :: "string \<Rightarrow> string" where
  "lower s = map lower_char s"

definition strip :: "string \<Rightarrow> string" where
  "strip s = rev (dropWhile is_space (rev (dropWhile is_space s)))"

text \<open>\<open>str.title()\<close>: a letter that follows a letter is lower-cased, any other letter is
  upper-cased, every other character is copied.\<close>

fun title_from :: "bool \<Rightarrow> string \<Rightarrow> string" where
  "title_from prev [] = []"
| "title_from prev (c # cs) =
     (if is_alpha c then (if prev then lower_char c else upper_char c) # title_from True cs
      else c # title_from False cs)"

definition title :: "string \<Rightarrow> string" where
  "title s = title_from False s"

text \<open>\<open>s.startswith(p)\<close> and \<open>sub in s\<close>.\<close>

fun startswith :: "string \<Rightarrow> string \<Rightarrow> bool" where
  "startswith s [] = True"
| "startswith [] (p # ps) = False"
| "startswith (c # cs) (p # ps) = (c = p \<and> startswith cs ps)"

fun contains :: "string \<Rightarrow> string \<Rightarrow> bool" where
  "contains sub [] = (sub = [])"
| "contains sub (c # cs) = (startswith (c # cs) sub \<or> contains sub cs)"

text \<open>\<open>s.split(sep, 1)[1]\<close>: the text after the first occurrence of a non-empty \<open>sep\<close>;
  IndexError when \<open>sep\<close> does not occur, the split then having one element only.\<close>

fun split1_tail :: "string \<Rightarrow> string \<Rightarrow> pyexc + string" where
  "split1_tail sep [] = Inl IndexError"
| "split1_tail sep (c # cs) =
     (if startswith (c # cs) sep then Inr (drop (length sep) (c # cs))
      else split1_tail sep cs)"

section \<open>Fact extraction (conversation chain)\<close>

text \<open>
  Both name patterns are a literal followed by the group \<open>([a-zA-Z\s]+)\<close>. \<open>re.search\<close>
  returns the leftmost match: the first position where the literal is followed by at
  least one character of the class; the greedy group is the longest run of such
  characters from there.
\<close>

definition name_class :: "char \<Rightarrow> bool" where
  "name_class c = (is_alpha c \<or> is_space c)"

fun re_search_group :: "string \<Rightarrow> string \<Rightarrow> string option" where
  "re_search_group lit [] = None"
| "re_search_group lit (c # cs) =
     (if startswith (c # cs) lit \<and> takeWhile name_class (drop (length lit) (c # cs)) \<noteq> []
      then Some (takeWhile name_class (drop (length lit) (c # cs)))
      else re_search_group lit cs)"

definition name_patterns :: "string list" where
  "name_patterns = [''my name is '', ''call me '']"

text \<open>The \<open>for pattern in name_patterns\<close> loop; it has no \<open>break\<close>.\<close>

fun scan_name_patterns :: "string list \<Rightarrow> string \<Rightarrow> pydict \<Rightarrow> pydict" where
  "scan_name_patterns [] message_lower facts = facts"
| "scan_name_patterns (pattern # rest) message_lower facts =
     (case re_search_group pattern message_lower of
        None \<Rightarrow> scan_name_patterns rest message_lower facts
      | Some g \<Rightarrow>
          (let name = title (strip g) in
           if length name > 1
           then scan_name_patterns rest message_lower (AList.update ''name'' (JStr name) facts)
           else scan_name_patterns rest message_lower facts))"

text \<open>The body of the \<open>store this:\<close> branch, on the lower-cased and stripped message.\<close>

definition store_this_facts :: "string \<Rightarrow> pyexc + pydict" where
  "store_this_facts message_lower =
     ebind (split1_tail '':'' message_lower) (\<lambda>rest.
       let fact_text = strip rest in
       if contains ''dog'' fact_text \<and> contains ''name is'' fact_text then
         ebind (split1_tail ''name is'' fact_text) (\<lambda>t.
           Inr (AList.update ''pets'' (JArr [JStr (title (strip t))]) []))
       else if contains ''cat'' fact_text \<and> contains ''name is'' fact_text then
         ebind (split1_tail ''name is'' fact_text) (\<lambda>t.
           Inr (AList.update ''pets'' (JArr [JStr (title (strip t))]) []))
       else if contains ''like'' fact_text \<or> contains ''enjoy'' fact_text then
         ebind (if contains ''like'' fact_text then split1_tail ''like'' fact_text
                else split1_tail ''enjoy'' fact_text) (\<lambda>t.
           Inr (AList.update ''support_preferences'' (JArr [JStr (strip t)]) []))
       else Inr (AList.update ''notes'' (JArr [JStr fact_text]) []))"

definition is_store_this :: "string \<Rightarrow> bool" where
  "is_store_this message_lower =
     (startswith message_lower ''store this:'' \<or> startswith message_lower ''store this :'')"

definition extract_user_facts :: "string \<Rightarrow> pyexc + pydict" where
  "extract_user_facts message =
     (let message_lower = strip (lower message) in
      if is_store_this message_lower then store_this_facts message_lower
      else Inr (scan_name_patterns name_patterns message_lower []))"

section \<open>Documents and the vector collection store\<close>

text \<open>
  A stored document is a text. \<open>JsonText v\<close> stands for a text that \<open>json.loads\<close> parses
  to \<open>v\<close>, in particular the text \<open>json.dumps(v)\<close>; \<open>Text s\<close> is a text that
  \<open>json.loads\<close> rejects.
\<close>

datatype document = Text string | JsonText json

definition json_dumps :: "json \<Rightarrow> document" where
  "json_dumps v = JsonText v"

definition json_loads :: "document \<Rightarrow> pyexc + json" where
  "json_loads d = (case d of Text s \<Rightarrow> Inl JSONDecodeError | JsonText v \<Rightarrow> Inr v)"

record stored =
  rec_id :: string
  document :: document
  metadata :: pydict

type_synonym collection = "stored list"

text \<open>
  Modelled from the spec: the collection store is the ChromaDB library, which is not part
  of the repository. Section 4.1 of the specification gives its contract: \<open>add\<close> fails
  with DuplicateIdError if the id already exists, \<open>update\<close> fails with NotFoundError if
  the id is absent, \<open>get\<close> selects by id or by an exact-match filter on the metadata
  (all filter keys must match), \<open>delete\<close> removes by id, \<open>count\<close> is the number of
  records, and \<open>query\<close> returns the \<open>k\<close> records of smallest distance to the query
  text, ranked by ascending distance. The embedding distance is a parameter.
\<close>

definition coll_add :: "collection \<Rightarrow> stored \<Rightarrow> pyexc + collection" where
  "coll_add c r =
     (if rec_id r \<in> set (map rec_id c) then Inl DuplicateIdError else Inr (c @ [r]))"

definition coll_update :: "collection \<Rightarrow> stored \<Rightarrow> pyexc + collection" where
  "coll_update c r =
     (if rec_id r \<in> set (map rec_id c)
      then Inr (map (\<lambda>x. if rec_id x = rec_id r then r else x) c)
      else Inl NotFoundError)"

definition coll_get_ids :: "collection \<Rightarrow> string list \<Rightarrow> pyexc + stored list" where
  "coll_get_ids c ids = Inr (filter (\<lambda>r. rec_id r \<in> set ids) c)"

definition matches_where :: "pydict \<Rightarrow> stored \<Rightarrow> bool" where
  "matches_where wh r = list_all (\<lambda>kv. map_of (metadata r) (fst kv) = Some (snd kv)) wh"

definition coll_get_where :: "collection \<Rightarrow> pydict \<Rightarrow> pyexc + stored list" where
  "coll_get_where c wh = Inr (filter (matches_where wh) c)"

definition coll_delete :: "collection \<Rightarrow> string list \<Rightarrow> pyexc + collection" where
  "coll_delete c ids = Inr (filter (\<lambda>r. rec_id r \<notin> set ids) c)"

definition coll_count :: "collection \<Rightarrow> nat" where
  "coll_count c = length c"

record query_result =
  qdocuments :: "document list list option"
  qmetadatas :: "pydict list list option"
  qdistances :: "real list list option"

definition coll_query ::
  "(string \<Rightarrow> document \<Rightarrow> real) \<Rightarrow> collection \<Rightarrow> string \<Rightarrow> int \<Rightarrow> pyexc + query_result" where
  "coll_query distance_of c query_text k =
     (let ranked = take (nat k) (sort_key (\<lambda>r. distance_of query_text (document r)) c)
      in Inr \<lparr> qdocuments = Some [map document ranked],
               qmetadatas = Some [map metadata ranked],
               qdistances = Some [map (\<lambda>r. distance_of query_text (document r)) ranked] \<rparr>)"

section \<open>Memory manager\<close>

text \<open>The long-term part of \<open>MemoryManager\<close>: its six collections.\<close>

record memory_manager =
  reflections_collection :: collection
  important_memories_collection :: collection
  mood_data_collection :: collection
  sos_requests_collection :: collection
  user_profile_collection :: collection
  journals_collection :: collection

definition empty_manager :: memory_manager where
  "empty_manager =
     \<lparr> reflections_collection = [], important_memories_collection = [],
       mood_data_collection = [], sos_requests_collection = [],
       user_profile_collection = [], journals_collection = [] \<rparr>"

text \<open>\<open>{k: v for k, v in metadata.items() if v is not None}\<close>\<close>

definition clean_metadata :: "pydict \<Rightarrow> pydict" where
  "clean_metadata md = filter (\<lambda>kv. snd kv \<noteq> JNull) md"

definition profile_id :: string where
  "profile_id = ''user_profile_main''"

definition profile_record :: "string \<Rightarrow> json \<Rightarrow> stored" where
  "profile_record timestamp profile_data =
     \<lparr> rec_id = profile_id,
       document = json_dumps profile_data,
       metadata = clean_metadata
         [(''id'', JStr profile_id), (''timestamp'', JStr timestamp),
          (''type'', JStr ''user_profile''), (''last_updated'', JStr timestamp)] \<rparr>"

datatype profile_update = ProfileUpdated string string | ProfileUpdateFailed pyexc

text \<open>
  \<open>update_user_profile\<close>; \<open>timestamp\<close> is the clock reading of the call. The inner
  \<open>try\<close> looks the sentinel id up and updates or adds; its handler adds; an exception of
  the handler reaches the outer handler, which reports the failure.
\<close>

definition update_user_profile ::
  "string \<Rightarrow> json \<Rightarrow> memory_manager \<Rightarrow> profile_update \<times> memory_manager" where
  "update_user_profile timestamp profile_data mm =
     (let r = profile_record timestamp profile_data;
          c = user_profile_collection mm;
          attempt = ebind (coll_get_ids c [profile_id]) (\<lambda>existing.
                      if existing \<noteq> [] then coll_update c r else coll_add c r);
          written = (case attempt of Inl e \<Rightarrow> coll_add c r | Inr c' \<Rightarrow> Inr c')
      in case written of
           Inl e \<Rightarrow> (ProfileUpdateFailed e, mm)
         | Inr c' \<Rightarrow> (ProfileUpdated timestamp profile_id,
                      mm\<lparr>user_profile_collection := c'\<rparr>))"

datatype profile_read = ProfileFound json pydict | ProfileMissing | ProfileReadFailed pyexc

text \<open>\<open>get_user_profile\<close>: an empty document is falsy and reads as a missing profile.\<close>

definition get_user_profile :: "memory_manager \<Rightarrow> profile_read" where
  "get_user_profile mm =
     (case coll_get_ids (user_profile_collection mm) [profile_id] of
        Inl e \<Rightarrow> ProfileReadFailed e
      | Inr [] \<Rightarrow> ProfileMissing
      | Inr (r # rs) \<Rightarrow>
          (if document r = Text [] then ProfileMissing
           else case json_loads (document r) of
                  Inl e \<Rightarrow> ProfileReadFailed e
                | Inr profile_data \<Rightarrow> ProfileFound profile_data (metadata r)))"

subsection \<open>Relevant memories\<close>

record memory_hit =
  content :: document
  hit_metadata :: pydict
  hit_collection :: string
  distance :: real

definition nth_exc :: "'a list \<Rightarrow> nat \<Rightarrow> pyexc + 'a" where
  "nth_exc xs i = (if i < length xs then Inr (xs ! i) else Inl IndexError)"

text \<open>\<open>results['metadatas'][0][i] if results['metadatas'] else {}\<close> and the same for the
  distances, with default 0.\<close>

definition metadata_at :: "query_result \<Rightarrow> nat \<Rightarrow> pyexc + pydict" where
  "metadata_at results i =
     (case qmetadatas results of
        None \<Rightarrow> Inr []
      | Some [] \<Rightarrow> Inr []
      | Some (m0 # ms) \<Rightarrow> nth_exc m0 i)"

definition distance_at :: "query_result \<Rightarrow> nat \<Rightarrow> pyexc + real" where
  "distance_at results i =
     (case qdistances results of
        None \<Rightarrow> Inr 0
      | Some [] \<Rightarrow> Inr 0
      | Some (d0 # ds) \<Rightarrow> nth_exc d0 i)"

text \<open>The \<open>enumerate\<close> loop over the documents of one collection. An exception ends the
  loop for this collection; the hits appended before it stay in the list.\<close>

fun collect_hits :: "string \<Rightarrow> query_result \<Rightarrow> nat \<Rightarrow> document list \<Rightarrow> memory_hit list" where
  "collect_hits collection_name results i [] = []"
| "collect_hits collection_name results i (doc # docs) =
     (case ebind (metadata_at results i) (\<lambda>md.
             ebind (distance_at results i) (\<lambda>d.
               Inr \<lparr> content = doc, hit_metadata = md,
                     hit_collection = collection_name, distance = d \<rparr>)) of
        Inl e \<Rightarrow> []
      | Inr h \<Rightarrow> h # collect_hits collection_name results (Suc i) docs)"

definition query_hits :: "string \<Rightarrow> query_result \<Rightarrow> memory_hit list" where
  "query_hits collection_name results =
     (case qdocuments results of
        None \<Rightarrow> []
      | Some [] \<Rightarrow> []
      | Some (d0 # ds) \<Rightarrow> collect_hits collection_name results 0 d0)"

text \<open>\<open>xs[:n]\<close>: a negative \<open>n\<close> drops the last \<open>-n\<close> elements.\<close>

definition py_slice_to :: "int \<Rightarrow> 'a list \<Rightarrow> 'a list" where
  "py_slice_to n xs =
     (if 0 \<le> n then take (nat n) xs else take (length xs - nat (- n)) xs)"

definition searched_collections :: "memory_manager \<Rightarrow> (string \<times> collection) list" where
  "searched_collections mm =
     [(''reflections'', reflections_collection mm),
      (''important_memories'', important_memories_collection mm),
      (''user_profile'', user_profile_collection mm)]"

text \<open>\<open>get_relevant_memories\<close>; \<open>list.sort\<close> is stable, as \<open>sort_key\<close> is, and distances
  are compared as real numbers.\<close>

definition get_relevant_memories ::
  "(string \<Rightarrow> document \<Rightarrow> real) \<Rightarrow> memory_manager \<Rightarrow> string \<Rightarrow> int \<Rightarrow> memory_hit list" where
  "get_relevant_memories distance_of mm query n_results =
     (let relevant_memories =
            concat (map (\<lambda>nc.
              case coll_query distance_of (snd nc) query (min n_results 3) of
                Inl e \<Rightarrow> []
              | Inr results \<Rightarrow> query_hits (fst nc) results) (searched_collections mm))
      in py_slice_to n_results (sort_key distance relevant_memories))"

section \<open>Profile merge (conversation chain)\<close>

text \<open>
  \<open>list(set(existing + value))\<close>. A set needs hashable elements, so a list or a dict among
  them raises TypeError. Elements are equal as Python compares them (\<open>True == 1\<close>), the
  first of equal elements is kept, and the order in which the set is then listed is not
  specified by Python: it is the parameter \<open>iteration_order\<close>, a rearrangement of the
  elements.
\<close>

definition hashable :: "json \<Rightarrow> bool" where
  "hashable v = (case v of JArr xs \<Rightarrow> False | JObj d \<Rightarrow> False | _ \<Rightarrow> True)"

definition py_num :: "json \<Rightarrow> real option" where
  "py_num v = (case v of JBool b \<Rightarrow> Some (if b then 1 else 0) | JNum r \<Rightarrow> Some r | _ \<Rightarrow> None)"

text \<open>\<open>a == b\<close>: numbers and booleans by value, everything else by structure.\<close>

definition py_eq :: "json \<Rightarrow> json \<Rightarrow> bool" where
  "py_eq a b =
     (case (py_num a, py_num b) of
        (Some x, Some y) \<Rightarrow> x = y
      | (None, None) \<Rightarrow> a = b
      | _ \<Rightarrow> False)"

definition set_add :: "json list \<Rightarrow> json \<Rightarrow> json list" where
  "set_add elems x = (if list_ex (py_eq x) elems then elems else elems @ [x])"

definition py_list_of_set :: "(json list \<Rightarrow> json list) \<Rightarrow> json list \<Rightarrow> pyexc + json list" where
  "py_list_of_set iteration_order xs =
     (if list_all hashable xs then Inr (iteration_order (foldl set_add [] xs))
      else Inl TypeError)"

text \<open>The \<open>for key, value in facts.items()\<close> loop of \<open>_store_user_facts\<close>.\<close>

definition existing_list :: "pydict \<Rightarrow> string \<Rightarrow> json list" where
  "existing_list profile_data key =
     (case map_of profile_data key of Some (JArr existing) \<Rightarrow> existing | _ \<Rightarrow> [])"

fun merge_facts ::
  "(json list \<Rightarrow> json list) \<Rightarrow> pydict \<Rightarrow> pydict \<Rightarrow> pyexc + pydict" where
  "merge_facts iteration_order profile_data [] = Inr profile_data"
| "merge_facts iteration_order profile_data ((key, v) # rest) =
     (case v of
        JArr new_items \<Rightarrow>
          ebind (py_list_of_set iteration_order (existing_list profile_data key @ new_items))
            (\<lambda>merged. merge_facts iteration_order
                         (AList.update key (JArr merged) profile_data) rest)
      | _ \<Rightarrow> merge_facts iteration_order (AList.update key v profile_data) rest)"

text \<open>\<open>existing_profile.get("profile", {})\<close>; the loop then needs a dict.\<close>

definition profile_of :: "profile_read \<Rightarrow> pyexc + pydict" where
  "profile_of existing_profile =
     (case existing_profile of
        ProfileFound (JObj d) md \<Rightarrow> Inr d
      | ProfileFound v md \<Rightarrow> Inl AttributeError
      | ProfileMissing \<Rightarrow> Inr []
      | ProfileReadFailed e \<Rightarrow> Inr [])"

text \<open>\<open>_store_user_facts\<close>: \<open>now\<close> is the clock reading stamped into \<open>last_updated\<close>,
  \<open>timestamp\<close> the later one of \<open>update_user_profile\<close>. Any exception is printed and
  nothing is stored.\<close>

definition store_user_facts ::
  "(json list \<Rightarrow> json list) \<Rightarrow> string \<Rightarrow> string \<Rightarrow> pydict \<Rightarrow> memory_manager
     \<Rightarrow> memory_manager" where
  "store_user_facts iteration_order now timestamp facts mm =
     (if facts = [] then mm
      else case ebind (profile_of (get_user_profile mm)) (\<lambda>profile_data.
                  ebind (merge_facts iteration_order profile_data facts) (\<lambda>merged.
                    Inr (AList.update ''last_updated'' (JStr now) merged))) of
             Inl e \<Rightarrow> mm
           | Inr profile_data \<Rightarrow> snd (update_user_profile timestamp (JObj profile_data) mm))"

section \<open>Task manager\<close>

definition priority_levels :: "(string \<times> int) list" where
  "priority_levels = [(''low'', 1), (''medium'', 2), (''high'', 3), (''urgent'', 4)]"

definition task_categories :: "(string \<times> string) list" where
  "task_categories =
     [(''self_care'', ''Self-care and wellness activities''),
      (''mindfulness'', ''Mindfulness and meditation practices''),
      (''exercise'', ''Physical activity and movement''),
      (''social'', ''Social connections and relationships''),
      (''work'', ''Work and professional tasks''),
      (''personal'', ''Personal goals and projects''),
      (''health'', ''Health and medical appointments''),
      (''learning'', ''Learning and skill development''),
      (''creative'', ''Creative activities and hobbies''),
      (''household'', ''Home and daily maintenance'')]"

definition tag_keywords :: "(string \<times> string list) list" where
  "tag_keywords =
     [(''exercise'', [''exercise'', ''workout'', ''gym'', ''run'', ''walk'', ''bike'']),
      (''meditation'', [''meditate'', ''mindfulness'', ''breathe'', ''calm'']),
      (''social'', [''call'', ''meet'', ''friend'', ''family'', ''visit'']),
      (''creative'', [''draw'', ''write'', ''paint'', ''music'', ''create'']),
      (''learning'', [''study'', ''learn'', ''read'', ''course'', ''skill'']),
      (''health'', [''doctor'', ''appointment'', ''medicine'', ''therapy'']),
      (''urgent'', [''urgent'', ''asap'', ''deadline'', ''important'']),
      (''relaxing'', [''relax'', ''rest'', ''sleep'', ''break'', ''vacation''])]"

definition extract_tags :: "string \<Rightarrow> string list" where
  "extract_tags text =
     (let text_lower = lower text
      in map fst (filter (\<lambda>tk. list_ex (\<lambda>keyword. contains keyword text_lower) (snd tk))
                         tag_keywords))"

definition estimate_effort :: "string \<Rightarrow> string \<Rightarrow> string" where
  "estimate_effort task_title description =
     (let text = lower (task_title @ '' '' @ description)
      in if list_ex (\<lambda>keyword. contains keyword text)
              [''project'', ''complete'', ''finish'', ''major'', ''big'', ''complex'']
         then ''high''
         else if list_ex (\<lambda>keyword. contains keyword text)
              [''quick'', ''simple'', ''easy'', ''call'', ''email'', ''check'']
         then ''low''
         else ''medium'')"

definition category_suggestions :: "(string \<times> string list) list" where
  "category_suggestions =
     [(''self_care'',
         [''Set a peaceful environment before starting'',
          ''Practice self-compassion throughout'',
          ''Celebrate completing this self-care activity'']),
      (''work'',
         [''Take breaks every hour'',
          ''Practice deep breathing if you feel stressed'',
          ''Remember that your worth isn't tied to productivity'']),
      (''exercise'',
         [''Start slowly and listen to your body'',
          ''Focus on how movement makes you feel'',
          ''Celebrate any movement, no matter how small'']),
      (''social'',
         [''Be present and engaged'',
          ''Practice active listening'',
          ''It's okay if social interactions feel challenging''])]"

text \<open>The string of a string value, used for sort keys.\<close>

definition str_of :: "json \<Rightarrow> string" where
  "str_of k = (case k of JStr s \<Rightarrow> s | _ \<Rightarrow> [])"

text \<open>
  The arguments of \<open>add_task\<close> come from the JSON body of a request without validation,
  so they are decoded JSON values. \<open>if v:\<close> tests the truth value, \<open>v.strip()\<close> needs a
  string (\<open>as_str\<close>, AttributeError otherwise), and \<open>v in d\<close> and \<open>d.get(v, ...)\<close> hash the
  value, which raises TypeError for a list or a dict; a hashable value that is not a
  string is no key of a dict with string keys.
\<close>

definition truthy :: "json \<Rightarrow> bool" where
  "truthy v =
     (case v of
        JNull \<Rightarrow> False
      | JBool b \<Rightarrow> b
      | JNum r \<Rightarrow> r \<noteq> 0
      | JStr s \<Rightarrow> s \<noteq> []
      | JArr xs \<Rightarrow> xs \<noteq> []
      | JObj d \<Rightarrow> d \<noteq> [])"

definition as_str :: "json \<Rightarrow> pyexc + string" where
  "as_str v = (case v of JStr s \<Rightarrow> Inr s | _ \<Rightarrow> Inl AttributeError)"

definition key_in :: "json \<Rightarrow> (string \<times> 'a) list \<Rightarrow> pyexc + bool" where
  "key_in v d =
     (if \<not> hashable v then Inl TypeError
      else Inr (case v of JStr s \<Rightarrow> s \<in> set (map fst d) | _ \<Rightarrow> False))"

definition generate_wellness_suggestions :: "json \<Rightarrow> json \<Rightarrow> pyexc + string list" where
  "generate_wellness_suggestions category wellness_impact =
     (if \<not> hashable category then Inl TypeError
      else
        (let suggestions =
               (case category of
                  JStr c \<Rightarrow> (case map_of category_suggestions c of Some xs \<Rightarrow> xs | None \<Rightarrow> [])
                | _ \<Rightarrow> []);
             suggestions' =
               (if wellness_impact = JStr ''challenging'' then
                  suggestions @
                    [''Break this task into smaller, manageable steps'',
                     ''Plan a self-care activity for after completion'',
                     ''Remember it's okay to ask for help'']
                else if wellness_impact = JStr ''positive'' then
                  suggestions @
                    [''Savor the positive feelings this task brings'',
                     ''Notice how accomplishing this improves your mood'']
                else suggestions)
         in Inr (take 3 suggestions')))"

text \<open>\<open>s.replace('Z', '+00:00')\<close>\<close>

definition replace_Z :: "string \<Rightarrow> string" where
  "replace_Z s = concat (map (\<lambda>c. if c = CHR ''Z'' then ''+00:00'' else [c]) s)"

definition date_formats :: "string list" where
  "date_formats = [''%Y-%m-%d'', ''%Y-%m-%d %H:%M'', ''%m/%d/%Y'', ''%d/%m/%Y'']"

fun first_format :: "(string \<Rightarrow> string \<Rightarrow> string option) \<Rightarrow> string \<Rightarrow> string list \<Rightarrow> string option" where
  "first_format strptime_iso due_date [] = None"
| "first_format strptime_iso due_date (fmt # fmts) =
     (case strptime_iso fmt due_date of
        Some parsed \<Rightarrow> Some parsed
      | None \<Rightarrow> first_format strptime_iso due_date fmts)"

text \<open>
  The due date of \<open>add_task\<close>. The datetime library is a parameter:
  \<open>fromisoformat_iso s\<close> is \<open>datetime.fromisoformat(s).isoformat()\<close> and
  \<open>strptime_iso fmt s\<close> is
  \<open>datetime.strptime(s, fmt).replace(tzinfo=timezone.utc).isoformat()\<close>, each \<open>None\<close>
  where Python raises ValueError. A truthy due date that is not a string has no
  \<open>replace\<close>; that AttributeError is caught, and \<open>strptime\<close> then raises a TypeError
  that is not.
\<close>

definition parse_due_date ::
  "(string \<Rightarrow> string option) \<Rightarrow> (string \<Rightarrow> string \<Rightarrow> string option) \<Rightarrow> json
     \<Rightarrow> pyexc + string option" where
  "parse_due_date fromisoformat_iso strptime_iso due_date =
     (if \<not> truthy due_date then Inr None
      else (case due_date of
              JStr d \<Rightarrow>
                (case fromisoformat_iso (replace_Z d) of
                   Some parsed \<Rightarrow> Inr (Some parsed)
                 | None \<Rightarrow> Inr (first_format strptime_iso d date_formats))
            | _ \<Rightarrow> Inl TypeError))"

definition opt_str :: "string option \<Rightarrow> json" where
  "opt_str x = (case x of None \<Rightarrow> JNull | Some s \<Rightarrow> JStr s)"

text \<open>\<open>d[k]\<close> on a decoded JSON value: KeyError on a dict without the key, TypeError on a
  value that has no string subscripts.\<close>

definition subscript :: "json \<Rightarrow> string \<Rightarrow> pyexc + json" where
  "subscript v k =
     (case v of
        JObj d \<Rightarrow> (case map_of d k of None \<Rightarrow> Inl KeyError | Some x \<Rightarrow> Inr x)
      | _ \<Rightarrow> Inl TypeError)"

text \<open>\<open>d.get(k, default)\<close>: only a dict has the method.\<close>

definition dict_get :: "json \<Rightarrow> string \<Rightarrow> json \<Rightarrow> pyexc + json" where
  "dict_get v k dflt =
     (case v of
        JObj d \<Rightarrow> (case map_of d k of None \<Rightarrow> Inr dflt | Some x \<Rightarrow> Inr x)
      | _ \<Rightarrow> Inl AttributeError)"

text \<open>The record that \<open>_save_task_to_memory\<close> and \<open>_update_task_in_memory\<close> build. The
  store takes string ids only.\<close>

definition id_string :: "json \<Rightarrow> pyexc + string" where
  "id_string v = (case v of JStr s \<Rightarrow> Inr s | _ \<Rightarrow> Inl ValueError)"

definition task_record :: "pydict \<Rightarrow> pyexc + stored" where
  "task_record task =
     ebind (subscript (JObj task) ''id'') (\<lambda>task_id.
     ebind (subscript (JObj task) ''status'') (\<lambda>status.
     ebind (subscript (JObj task) ''priority'') (\<lambda>priority.
     ebind (subscript (JObj task) ''category'') (\<lambda>category.
     ebind (subscript (JObj task) ''created_at'') (\<lambda>created_at.
     ebind (dict_get (JObj task) ''due_date'' JNull) (\<lambda>due_date.
     ebind (subscript (JObj task) ''wellness_impact'') (\<lambda>wellness_impact.
     ebind (id_string task_id) (\<lambda>rid.
       Inr \<lparr> rec_id = rid,
             document = json_dumps (JObj task),
             metadata = clean_metadata
               [(''id'', task_id), (''type'', JStr ''task''), (''status'', status),
                (''priority'', priority), (''category'', category),
                (''created_at'', created_at), (''due_date'', due_date),
                (''wellness_impact'', wellness_impact)] \<rparr>))))))))"

definition save_task_to_memory :: "pydict \<Rightarrow> memory_manager \<Rightarrow> memory_manager" where
  "save_task_to_memory task mm =
     (case ebind (task_record task) (coll_add (important_memories_collection mm)) of
        Inl e \<Rightarrow> mm
      | Inr c' \<Rightarrow> mm\<lparr>important_memories_collection := c'\<rparr>)"

definition update_task_in_memory :: "pydict \<Rightarrow> memory_manager \<Rightarrow> memory_manager" where
  "update_task_in_memory task mm =
     (case ebind (task_record task) (coll_update (important_memories_collection mm)) of
        Inl e \<Rightarrow> mm
      | Inr c' \<Rightarrow> mm\<lparr>important_memories_collection := c'\<rparr>)"

datatype task_result = TaskOk pydict | TaskFailed pyexc

text \<open>
  \<open>add_task\<close>. \<open>task_id\<close> is the fresh UUID and \<open>timestamp\<close> the clock reading;
  \<open>new_task\<close> is the due date and the task object, evaluated in the order of the source.
  Any exception reaches the handler of \<open>add_task\<close>, which returns
  \<open>{"success": False, "error": ...}\<close>, here \<open>TaskFailed\<close>, before anything is stored. The
  returned \<open>motivation\<close> and \<open>wellness_tip\<close> texts are looked up from the finished
  task in two message tables, which cannot raise, and are left out.
\<close>

definition new_task ::
  "(string \<Rightarrow> string option) \<Rightarrow> (string \<Rightarrow> string \<Rightarrow> string option) \<Rightarrow> string \<Rightarrow> string
     \<Rightarrow> json \<Rightarrow> json \<Rightarrow> json \<Rightarrow> json \<Rightarrow> json \<Rightarrow> json \<Rightarrow> pyexc + pydict" where
  "new_task fromisoformat_iso strptime_iso task_id timestamp
            task_title description priority due_date category wellness_impact =
     ebind (parse_due_date fromisoformat_iso strptime_iso due_date) (\<lambda>parsed_due_date.
     ebind (as_str task_title) (\<lambda>title_text.
     ebind (as_str description) (\<lambda>description_text.
     ebind (key_in priority priority_levels) (\<lambda>known_priority.
     ebind (key_in category task_categories) (\<lambda>known_category.
     ebind (generate_wellness_suggestions category wellness_impact) (\<lambda>suggestions.
       Inr [(''id'', JStr task_id),
            (''title'', JStr (strip title_text)),
            (''description'', JStr (strip description_text)),
            (''priority'', if known_priority then priority else JStr ''medium''),
            (''category'', if known_category then category else JStr ''personal''),
            (''wellness_impact'', wellness_impact),
            (''status'', JStr ''pending''),
            (''created_at'', JStr timestamp),
            (''due_date'', opt_str parsed_due_date),
            (''completed_at'', JNull),
            (''tags'',
               JArr (map JStr (extract_tags (title_text @ '' '' @ description_text)))),
            (''estimated_effort'', JStr (estimate_effort title_text description_text)),
            (''wellness_suggestions'', JArr (map JStr suggestions))]))))))"

definition add_task ::
  "(string \<Rightarrow> string option) \<Rightarrow> (string \<Rightarrow> string \<Rightarrow> string option) \<Rightarrow> string \<Rightarrow> string
     \<Rightarrow> json \<Rightarrow> json \<Rightarrow> json \<Rightarrow> json \<Rightarrow> json \<Rightarrow> json
     \<Rightarrow> memory_manager \<Rightarrow> task_result \<times> memory_manager" where
  "add_task fromisoformat_iso strptime_iso task_id timestamp
            task_title description priority due_date category wellness_impact mm =
     (case new_task fromisoformat_iso strptime_iso task_id timestamp
             task_title description priority due_date category wellness_impact of
        Inl e \<Rightarrow> (TaskFailed e, mm)
      | Inr task \<Rightarrow> (TaskOk task, save_task_to_memory task mm))"

subsection \<open>Listing tasks\<close>

text \<open>
  \<open>a < b\<close> on decoded JSON values: strings by code points, numbers and booleans by
  value, lists lexicographically; every other pair, in particular \<open>None\<close> against a
  string, raises TypeError (\<open>None\<close> here).
\<close>

fun py_lt :: "json \<Rightarrow> json \<Rightarrow> bool option"
  and py_lt_list :: "json list \<Rightarrow> json list \<Rightarrow> bool option" where
  "py_lt a b =
     (case (a, b) of
        (JStr x, JStr y) \<Rightarrow> Some (x < y)
      | (JArr xs, JArr ys) \<Rightarrow> py_lt_list xs ys
      | _ \<Rightarrow> (case (py_num a, py_num b) of (Some x, Some y) \<Rightarrow> Some (x < y) | _ \<Rightarrow> None))"
| "py_lt_list [] [] = Some False"
| "py_lt_list [] (y # ys) = Some True"
| "py_lt_list (x # xs) [] = Some False"
| "py_lt_list (x # xs) (y # ys) = (if py_eq x y then py_lt_list xs ys else py_lt x y)"

declare py_lt.simps(1) [simp del]

text \<open>The sort key \<open>(-priority_level, due_date)\<close> and \<open><\<close> on such pairs: the first
  components that differ decide, and only they are compared.\<close>

definition task_sort_key :: "json \<Rightarrow> pyexc + (int \<times> json)" where
  "task_sort_key t =
     ebind (dict_get t ''priority'' (JStr ''medium'')) (\<lambda>p.
       if \<not> hashable p then Inl TypeError
       else ebind (dict_get t ''due_date'' (JStr ''9999-12-31'')) (\<lambda>due.
         Inr (- (case p of
                   JStr name \<Rightarrow> (case map_of priority_levels name of Some l \<Rightarrow> l | None \<Rightarrow> 2)
                 | _ \<Rightarrow> 2), due)))"

definition key_lt :: "int \<times> json \<Rightarrow> int \<times> json \<Rightarrow> bool option" where
  "key_lt a b =
     (if fst a \<noteq> fst b then Some (fst a < fst b)
      else if py_eq (snd a) (snd b) then Some False
      else py_lt (snd a) (snd b))"

text \<open>
  \<open>list.sort(key=...)\<close> computes every key first, compares keys with \<open><\<close> only and
  lets the TypeError of a comparison through. The model is the stable insertion sort.
  Where all keys are comparable every stable sort returns the same list, and on a list of
  two elements the one comparison made is the one \<open>list.sort\<close> makes, the second key
  against the first.
\<close>

fun py_insort :: "('k \<Rightarrow> 'k \<Rightarrow> bool option) \<Rightarrow> 'k \<times> 'a \<Rightarrow> ('k \<times> 'a) list \<Rightarrow> ('k \<times> 'a) list option" where
  "py_insort lt x [] = Some [x]"
| "py_insort lt x (y # ys) =
     (case lt (fst y) (fst x) of
        None \<Rightarrow> None
      | Some True \<Rightarrow> map_option ((#) y) (py_insort lt x ys)
      | Some False \<Rightarrow> Some (x # y # ys))"

fun py_sort :: "('k \<Rightarrow> 'k \<Rightarrow> bool option) \<Rightarrow> ('k \<times> 'a) list \<Rightarrow> ('k \<times> 'a) list option" where
  "py_sort lt [] = Some []"
| "py_sort lt (x # xs) =
     (case py_sort lt xs of None \<Rightarrow> None | Some ys \<Rightarrow> py_insort lt x ys)"

fun keyed :: "('a \<Rightarrow> pyexc + 'k) \<Rightarrow> 'a list \<Rightarrow> pyexc + ('k \<times> 'a) list" where
  "keyed f [] = Inr []"
| "keyed f (x # xs) =
     ebind (f x) (\<lambda>k. ebind (keyed f xs) (\<lambda>rest. Inr ((k, x) # rest)))"

definition sort_tasks :: "json list \<Rightarrow> pyexc + json list" where
  "sort_tasks tasks =
     ebind (keyed task_sort_key tasks) (\<lambda>ks.
       case py_sort key_lt ks of None \<Rightarrow> Inl TypeError | Some ordered \<Rightarrow> Inr (map snd ordered))"

text \<open>The documents that parse; a JSONDecodeError skips the document.\<close>

fun load_tasks :: "document list \<Rightarrow> json list" where
  "load_tasks [] = []"
| "load_tasks (doc # docs) =
     (case json_loads doc of
        Inl e \<Rightarrow> load_tasks docs
      | Inr task \<Rightarrow> task # load_tasks docs)"

definition task_filter :: "string option \<Rightarrow> string option \<Rightarrow> pydict" where
  "task_filter status category =
     (let where_filter = [(''type'', JStr ''task'')];
          where_filter' =
            (case status of
               Some s \<Rightarrow> if s \<noteq> [] then AList.update ''status'' (JStr s) where_filter
                         else where_filter
             | None \<Rightarrow> where_filter)
      in case category of
           Some c \<Rightarrow> if c \<noteq> [] then AList.update ''category'' (JStr c) where_filter'
                     else where_filter'
         | None \<Rightarrow> where_filter')"

text \<open>\<open>get_all_tasks\<close>: any exception, the TypeError of the sort included, is printed and
  the empty list returned.\<close>

definition get_all_tasks :: "string option \<Rightarrow> string option \<Rightarrow> memory_manager \<Rightarrow> json list" where
  "get_all_tasks status category mm =
     (case ebind (coll_get_where (important_memories_collection mm)
                    (task_filter status category)) (\<lambda>results.
             sort_tasks (load_tasks (map document results))) of
        Inl e \<Rightarrow> []
      | Inr tasks \<Rightarrow> tasks)"

subsection \<open>Updating and deleting tasks\<close>

text \<open>\<open>next((t for t in existing_tasks if t['id'] == task_id), None)\<close>\<close>

fun find_task :: "string \<Rightarrow> json list \<Rightarrow> pyexc + json option" where
  "find_task task_id [] = Inr None"
| "find_task task_id (t # ts) =
     ebind (subscript t ''id'') (\<lambda>i.
       if i = JStr task_id then Inr (Some t) else find_task task_id ts)"

definition allowed_updates :: "string list" where
  "allowed_updates =
     [''title'', ''description'', ''priority'', ''category'', ''status'', ''due_date'',
      ''wellness_impact'']"

text \<open>The \<open>for key, value in updates.items()\<close> loop; \<open>now\<close> is the clock reading that a
  completion stamps.\<close>

fun apply_updates :: "string \<Rightarrow> pydict \<Rightarrow> pydict \<Rightarrow> pyexc + pydict" where
  "apply_updates now [] task = Inr task"
| "apply_updates now ((key, v) # updates) task =
     (if key \<in> set allowed_updates then
        (if key = ''status'' \<and> v = JStr ''completed'' then
           ebind (subscript (JObj task) ''status'') (\<lambda>old.
             if old \<noteq> JStr ''completed''
             then apply_updates now updates
                    (AList.update key v (AList.update ''completed_at'' (JStr now) task))
             else apply_updates now updates (AList.update key v task))
         else apply_updates now updates (AList.update key v task))
      else apply_updates now updates task)"

datatype update_result = UpdateOk pydict bool | UpdateNotFound | UpdateFailed pyexc

text \<open>
  \<open>update_task\<close>; \<open>now\<close> and \<open>now_updated\<close> are its two clock readings. A task that is
  found is the dict the sort key was computed from. The second component of \<open>UpdateOk\<close>
  tells whether a celebration text is returned; the text is a random choice formatted
  with \<open>task['title']\<close>, so a task without a title raises after the store was written.
\<close>

definition update_task ::
  "string \<Rightarrow> string \<Rightarrow> string \<Rightarrow> pydict \<Rightarrow> memory_manager \<Rightarrow> update_result \<times> memory_manager" where
  "update_task now now_updated task_id updates mm =
     (case find_task task_id (get_all_tasks None None mm) of
        Inl e \<Rightarrow> (UpdateFailed e, mm)
      | Inr None \<Rightarrow> (UpdateNotFound, mm)
      | Inr (Some (JObj task)) \<Rightarrow>
          (if task = [] then (UpdateNotFound, mm)
           else case apply_updates now updates task of
                  Inl e \<Rightarrow> (UpdateFailed e, mm)
                | Inr task' \<Rightarrow>
                    (let task'' = AList.update ''updated_at'' (JStr now_updated) task';
                         mm' = update_task_in_memory task'' mm
                     in if map_of updates ''status'' = Some (JStr ''completed'') then
                          (case subscript (JObj task'') ''title'' of
                             Inl e \<Rightarrow> (UpdateFailed e, mm')
                           | Inr t \<Rightarrow> (UpdateOk task'' True, mm'))
                        else (UpdateOk task'' False, mm')))
      | Inr (Some v) \<Rightarrow> (UpdateFailed TypeError, mm))"

text \<open>\<open>delete_task\<close>: True unless the store raises.\<close>

definition delete_task :: "string \<Rightarrow> memory_manager \<Rightarrow> bool \<times> memory_manager" where
  "delete_task task_id mm =
     (case coll_delete (important_memories_collection mm) [task_id] of
        Inl e \<Rightarrow> (False, mm)
      | Inr c' \<Rightarrow> (True, mm\<lparr>important_memories_collection := c'\<rparr>))"

section \<open>Mood tracker\<close>

definition mood_values :: "(string \<times> int) list" where
  "mood_values =
     [(''terrible'', 1), (''very_bad'', 2), (''bad'', 3), (''poor'', 4), (''okay'', 5),
      (''good'', 6), (''very_good'', 7), (''great'', 8), (''excellent'', 9),
      (''amazing'', 10)]"

definition value_moods :: "(int \<times> string) list" where
  "value_moods = map (\<lambda>kv. (snd kv, fst kv)) mood_values"

text \<open>
  A Python float is a real number, an infinity or NaN. \<open>int(x)\<close> truncates towards
  zero, raises OverflowError on an infinity and ValueError on NaN.
\<close>

datatype pyfloat = Finite real | PosInf | NegInf | NaN

definition py_int :: "pyfloat \<Rightarrow> pyexc + int" where
  "py_int x =
     (case x of
        Finite r \<Rightarrow> Inr (if 0 \<le> r then \<lfloor>r\<rfloor> else \<lceil>r\<rceil>)
      | PosInf \<Rightarrow> Inl OverflowError
      | NegInf \<Rightarrow> Inl OverflowError
      | NaN \<Rightarrow> Inl ValueError)"

text \<open>The mood of a request: an integer, a boolean, a float, a string, or any other
  decoded value (null, a list, an object), given by its text \<open>str(mood)\<close>.\<close>

datatype mood_input =
  MoodInt int | MoodBool bool | MoodFloat pyfloat | MoodStr string | MoodOther string

definition in_scale :: "int \<Rightarrow> int option" where
  "in_scale v = (if 1 \<le> v \<and> v \<le> 10 then Some v else None)"

text \<open>
  \<open>_parse_mood_value\<close>. \<open>float_of\<close> is the builtin \<open>float\<close> on a string, \<open>None\<close> where
  it raises ValueError. Only a ValueError of \<open>int(float(mood_str))\<close> falls through to
  the label lookup; any other exception reaches the outer handler, which returns
  \<open>None\<close>. A boolean is an \<open>int\<close> for \<open>isinstance\<close>; \<open>parse_mood_text\<close> is the path
  of \<open>str(mood)\<close>, which every value that is not a number takes.
\<close>

definition parse_mood_text :: "(string \<Rightarrow> pyfloat option) \<Rightarrow> string \<Rightarrow> int option" where
  "parse_mood_text float_of text =
     (let mood_str = strip (lower text)
      in case float_of mood_str of
           None \<Rightarrow> map_of mood_values mood_str
         | Some x \<Rightarrow>
             (case py_int x of
                Inl e \<Rightarrow> (if e = ValueError then map_of mood_values mood_str else None)
              | Inr v \<Rightarrow> in_scale v))"

definition parse_mood_value :: "(string \<Rightarrow> pyfloat option) \<Rightarrow> mood_input \<Rightarrow> int option" where
  "parse_mood_value float_of mood =
     (case mood of
        MoodInt i \<Rightarrow> in_scale i
      | MoodBool b \<Rightarrow> in_scale (if b then 1 else 0)
      | MoodFloat x \<Rightarrow> (case py_int x of Inl e \<Rightarrow> None | Inr v \<Rightarrow> in_scale v)
      | MoodStr s \<Rightarrow> parse_mood_text float_of s
      | MoodOther s \<Rightarrow> parse_mood_text float_of s)"

datatype mood_result = MoodLogged pydict string | MoodInvalid | MoodFailed pyexc

text \<open>
  \<open>log_mood\<close>: \<open>MoodInvalid\<close> is the result
  \<open>{"success": False, "error": "Invalid mood value"}\<close>, \<open>MoodFailed e\<close> the result of
  the outer handler. \<open>sentiment_of\<close> is the TextBlob analysis of the note, \<open>mood_id\<close>
  the fresh UUID, \<open>timestamp\<close> the clock reading. The returned \<open>insights\<close> are computed
  from the mood value and the note alone and are left out.
\<close>

definition log_mood ::
  "(string \<Rightarrow> pyfloat option) \<Rightarrow> (string \<Rightarrow> json) \<Rightarrow> string \<Rightarrow> string
     \<Rightarrow> mood_input \<Rightarrow> string \<Rightarrow> pydict option \<Rightarrow> memory_manager
     \<Rightarrow> mood_result \<times> memory_manager" where
  "log_mood float_of sentiment_of mood_id timestamp mood note ctx mm =
     (case parse_mood_value float_of mood of
        None \<Rightarrow> (MoodInvalid, mm)
      | Some mood_value \<Rightarrow>
          (let mood_data =
                 [(''id'', JStr mood_id),
                  (''mood_value'', JNum (of_int mood_value)),
                  (''mood_label'',
                     JStr (case map_of value_moods mood_value of
                             Some l \<Rightarrow> l | None \<Rightarrow> ''unknown'')),
                  (''note'', JStr note),
                  (''timestamp'', JStr timestamp),
                  (''context'', JObj (case ctx of Some d \<Rightarrow> d | None \<Rightarrow> []))];
               mood_data' =
                 (if note \<noteq> [] then AList.update ''note_sentiment'' (sentiment_of note) mood_data
                  else mood_data);
               r = \<lparr> rec_id = mood_id,
                     document = json_dumps (JObj mood_data'),
                     metadata =
                       [(''id'', JStr mood_id),
                        (''mood_value'', JNum (of_int mood_value)),
                        (''timestamp'', JStr timestamp),
                        (''type'', JStr ''mood_entry''),
                        (''has_note'', JBool (note \<noteq> []))] \<rparr>
           in case coll_add (mood_data_collection mm) r of
                Inl e \<Rightarrow> (MoodFailed e, mm)
              | Inr c' \<Rightarrow> (MoodLogged mood_data' timestamp,
                           mm\<lparr>mood_data_collection := c'\<rparr>)))"

subsection \<open>Mood entries in a date range\<close>

text \<open>
  A datetime is naive or aware, with its instant as a number; comparing a naive with an
  aware one raises TypeError. \<open>fromisoformat\<close> is the library's parser, \<open>None\<close> where it
  raises ValueError.
\<close>

datatype datetime = Naive int | Aware int

definition dt_le :: "datetime \<Rightarrow> datetime \<Rightarrow> pyexc + bool" where
  "dt_le a b =
     (case (a, b) of
        (Naive x, Naive y) \<Rightarrow> Inr (x \<le> y)
      | (Aware x, Aware y) \<Rightarrow> Inr (x \<le> y)
      | _ \<Rightarrow> Inl TypeError)"

definition str_replace_Z :: "json \<Rightarrow> pyexc + string" where
  "str_replace_Z v = (case v of JStr s \<Rightarrow> Inr (replace_Z s) | _ \<Rightarrow> Inl AttributeError)"

text \<open>The body of the inner \<open>try\<close>: \<open>Inr (Some mood_data)\<close> appends the entry,
  \<open>Inr None\<close> is an entry out of range, \<open>Inl e\<close> an exception.\<close>

definition read_mood_entry ::
  "(string \<Rightarrow> datetime option) \<Rightarrow> datetime \<Rightarrow> datetime \<Rightarrow> document \<Rightarrow> pyexc + json option" where
  "read_mood_entry fromisoformat start_date end_date doc =
     ebind (json_loads doc) (\<lambda>mood_data.
     ebind (subscript mood_data ''timestamp'') (\<lambda>ts.
     ebind (str_replace_Z ts) (\<lambda>iso.
     ebind (case fromisoformat iso of None \<Rightarrow> Inl ValueError | Some t \<Rightarrow> Inr t) (\<lambda>entry_time.
     ebind (dt_le start_date entry_time) (\<lambda>after_start.
       if after_start then
         ebind (dt_le entry_time end_date) (\<lambda>before_end.
           Inr (if before_end then Some mood_data else None))
       else Inr None)))))"

fun read_mood_entries ::
  "(string \<Rightarrow> datetime option) \<Rightarrow> datetime \<Rightarrow> datetime \<Rightarrow> document list \<Rightarrow> json list" where
  "read_mood_entries fromisoformat start_date end_date [] = []"
| "read_mood_entries fromisoformat start_date end_date (doc # docs) =
     (case read_mood_entry fromisoformat start_date end_date doc of
        Inr (Some mood_data) \<Rightarrow>
          mood_data # read_mood_entries fromisoformat start_date end_date docs
      | _ \<Rightarrow> read_mood_entries fromisoformat start_date end_date docs)"

text \<open>The key of the final sort, \<open>x['timestamp']\<close>; string keys compare by code points.\<close>

definition timestamp_key :: "json \<Rightarrow> pyexc + json" where
  "timestamp_key x = subscript x ''timestamp''"

definition sort_entries :: "json list \<Rightarrow> pyexc + json list" where
  "sort_entries entries =
     ebind (keyed timestamp_key entries) (\<lambda>ks.
       case py_sort py_lt ks of
         None \<Rightarrow> Inl TypeError
       | Some ordered \<Rightarrow> Inr (map snd ordered))"

definition get_mood_entries_in_range ::
  "(string \<Rightarrow> datetime option) \<Rightarrow> datetime \<Rightarrow> datetime \<Rightarrow> memory_manager \<Rightarrow> json list" where
  "get_mood_entries_in_range fromisoformat start_date end_date mm =
     (case ebind (coll_get_where (mood_data_collection mm) [(''type'', JStr ''mood_entry'')])
             (\<lambda>results.
               sort_entries
                 (read_mood_entries fromisoformat start_date end_date (map document results))) of
        Inl e \<Rightarrow> []
      | Inr mood_entries \<Rightarrow> mood_entries)"

section \<open>Specification-side definitions\<close>

text \<open>The answer of one collection as the specification describes it: its \<open>k\<close> nearest
  records in ranked order, each tagged with the name of the collection.\<close>

definition ranked_hits ::
  "(string \<Rightarrow> document \<Rightarrow> real) \<Rightarrow> string \<Rightarrow> int \<Rightarrow> string \<Rightarrow> collection \<Rightarrow> memory_hit list" where
  "ranked_hits distance_of query k collection_name c =
     map (\<lambda>r. \<lparr> content = document r, hit_metadata = metadata r,
                hit_collection = collection_name,
                distance = distance_of query (document r) \<rparr>)
         (take (nat k) (sort_key (\<lambda>r. distance_of query (document r)) c))"

text \<open>A mood entry as the specification describes it: a decoded document with a string
  timestamp that parses to a time within the range.\<close>

definition entry_in_range ::
  "(string \<Rightarrow> datetime option) \<Rightarrow> datetime \<Rightarrow> datetime \<Rightarrow> json \<Rightarrow> bool" where
  "entry_in_range fromisoformat start_date end_date v =
     (case v of
        JObj d \<Rightarrow>
          (case map_of d ''timestamp'' of
             Some (JStr ts) \<Rightarrow>
               (case fromisoformat (replace_Z ts) of
                  Some t \<Rightarrow> dt_le start_date t = Inr True \<and> dt_le t end_date = Inr True
                | None \<Rightarrow> False)
           | _ \<Rightarrow> False)
      | _ \<Rightarrow> False)"

text \<open>The values of the documents that deserialize, in stored order.\<close>

fun decoded :: "document list \<Rightarrow> json list" where
  "decoded [] = []"
| "decoded (Text s # docs) = decoded docs"
| "decoded (JsonText v # docs) = v # decoded docs"

text \<open>The timestamp of an entry, the empty string where it has none.\<close>

definition timestamp_of :: "json \<Rightarrow> string" where
  "timestamp_of v =
     (case v of
        JObj d \<Rightarrow> (case map_of d ''timestamp'' of Some (JStr ts) \<Rightarrow> ts | _ \<Rightarrow> [])
      | _ \<Rightarrow> [])"

text \<open>The shape of profiles and fact deltas in the specification: a value is a scalar or
  a list of strings.\<close>

definition is_string :: "json \<Rightarrow> bool" where
  "is_string v = (case v of JStr s \<Rightarrow> True | _ \<Rightarrow> False)"

definition string_items :: "json \<Rightarrow> bool" where
  "string_items v = (case v of JArr xs \<Rightarrow> list_all is_string xs | _ \<Rightarrow> True)"

definition string_lists :: "pydict \<Rightarrow> bool" where
  "string_lists d = list_all (\<lambda>kv. string_items (snd kv)) d"

section \<open>Example data\<close>

text \<open>A datetime library that knows one date, and a \<open>float\<close> that knows the strings of
  decimal digits; they instantiate the library parameters in the examples.\<close>

definition one_date_iso :: "string \<Rightarrow> string option" where
  "one_date_iso s = (if s = ''2025-01-01'' then Some ''2025-01-01T00:00:00'' else None)"

definition no_strptime :: "string \<Rightarrow> string \<Rightarrow> string option" where
  "no_strptime fmt s = None"

definition digit_value :: "char \<Rightarrow> nat option" where
  "digit_value c = map_of (zip ''0123456789'' [0, 1, 2, 3, 4, 5, 6, 7, 8, 9]) c"

fun digits_value :: "nat \<Rightarrow> string \<Rightarrow> nat option" where
  "digits_value acc [] = Some acc"
| "digits_value acc (c # cs) =
     (case digit_value c of None \<Rightarrow> None | Some d \<Rightarrow> digits_value (10 * acc + d) cs)"

definition float_of_digits :: "string \<Rightarrow> pyfloat option" where
  "float_of_digits s =
     (if s = [] then None
      else case digits_value 0 s of None \<Rightarrow> None | Some n \<Rightarrow> Some (Finite (of_nat n)))"

text \<open>Tasks as \<open>add_task\<close> stores them: one task without a due date, and a second
  one of the same priority with a due date.\<close>

definition one_task :: memory_manager where
  "one_task =
     snd (add_task one_date_iso no_strptime ''task-1'' ''2024-12-01T09:00:00+00:00''
            (JStr ''Take a walk'') (JStr []) (JStr ''medium'') JNull (JStr ''personal'')
            (JStr ''neutral'') empty_manager)"

definition two_tasks :: memory_manager where
  "two_tasks =
     snd (add_task one_date_iso no_strptime ''task-2'' ''2024-12-02T09:00:00+00:00''
            (JStr ''Read a chapter'') (JStr []) (JStr ''medium'') (JStr ''2025-01-01'')
            (JStr ''personal'') (JStr ''neutral'') one_task)"

text \<open>A stored profile with one pet, and a delta that names it again with a second one.\<close>

definition bruno_profile :: pydict where
  "bruno_profile = [(''name'', JStr ''Alex''), (''pets'', JArr [JStr ''Bruno''])]"

definition pets_delta :: pydict where
  "pets_delta = [(''pets'', JArr [JStr ''Bruno'', JStr ''Whiskers''])]"

text \<open>A stored profile whose pet the delta does not name.\<close>

definition rex_profile :: pydict where
  "rex_profile = [(''name'', JStr ''Alex''), (''pets'', JArr [JStr ''Rex''])]"

definition bruno_delta :: pydict where
  "bruno_delta = [(''pets'', JArr [JStr ''Bruno''])]"

text \<open>Three collections with one record each, at distances 0.9, 0.2 and 0.5.\<close>

definition three_distances :: "string \<Rightarrow> document \<Rightarrow> real" where
  "three_distances query d =
     (if d = Text ''I felt calm after the walk'' then 0.9
      else if d = Text ''Remember that mornings are hard'' then 0.2
      else 0.5)"

definition three_memories :: memory_manager where
  "three_memories =
     empty_manager
       \<lparr> reflections_collection :=
           [\<lparr> rec_id = ''r1'', document = Text ''I felt calm after the walk'',
              metadata = [(''type'', JStr ''reflection'')] \<rparr>],
         important_memories_collection :=
           [\<lparr> rec_id = ''m1'', document = Text ''Remember that mornings are hard'',
              metadata = [(''type'', JStr ''important_memory'')] \<rparr>],
         user_profile_collection :=
           [\<lparr> rec_id = ''user_profile_main'', document = JsonText (JObj [(''name'', JStr ''Alex'')]),
              metadata = [(''type'', JStr ''user_profile'')] \<rparr>] \<rparr>"

text \<open>Five stored mood documents, the third one malformed, and a datetime library
  that knows their four timestamps.\<close>

definition december_dates :: "string \<Rightarrow> datetime option" where
  "december_dates s =
     (if s = ''2024-12-01T08:00:00+00:00'' then Some (Aware 1)
      else if s = ''2024-12-02T08:00:00+00:00'' then Some (Aware 2)
      else if s = ''2024-12-03T08:00:00+00:00'' then Some (Aware 3)
      else if s = ''2024-12-04T08:00:00+00:00'' then Some (Aware 4)
      else None)"

definition mood_document :: "string \<Rightarrow> int \<Rightarrow> string \<Rightarrow> stored" where
  "mood_document mood_id mood_value timestamp =
     \<lparr> rec_id = mood_id,
       document = JsonText (JObj [(''id'', JStr mood_id),
                                  (''mood_value'', JNum (of_int mood_value)),
                                  (''timestamp'', JStr timestamp)]),
       metadata = [(''id'', JStr mood_id), (''mood_value'', JNum (of_int mood_value)),
                   (''timestamp'', JStr timestamp), (''type'', JStr ''mood_entry'')] \<rparr>"

definition five_moods :: memory_manager where
  "five_moods =
     empty_manager
       \<lparr> mood_data_collection :=
           [mood_document ''m3'' 6 ''2024-12-03T08:00:00Z'',
            mood_document ''m1'' 3 ''2024-12-01T08:00:00+00:00'',
            \<lparr> rec_id = ''m5'', document = Text ''{ mood_value: 4, timestamp: '',
               metadata = [(''id'', JStr ''m5''), (''type'', JStr ''mood_entry'')] \<rparr>,
            mood_document ''m4'' 8 ''2024-12-04T08:00:00+00:00'',
            mood_document ''m2'' 5 ''2024-12-02T08:00:00+00:00''] \<rparr>"

section \<open>Deleting a task\<close>

lemma coll_delete_total: "\<exists>c'. coll_delete c ids = Inr c'"
  by (simp add: coll_delete_def)

text \<open>
  Claim C7, as the code has it: \<open>delete_task\<close> reports success for every task id,
  whether or not a record with that id is stored; afterwards no record of
  \<open>important_memories\<close> has the id, every other record is kept in place, and no other
  collection changes. The store's \<open>delete\<close> has no failure for an absent id, and
  \<open>delete_task\<close> does not look the id up.
\<close>

theorem delete_task_always_succeeds:
  "fst (delete_task task_id mm) = True
   \<and> important_memories_collection (snd (delete_task task_id mm))
       = filter (\<lambda>r. rec_id r \<noteq> task_id) (important_memories_collection mm)
   \<and> task_id \<notin> set (map rec_id (important_memories_collection (snd (delete_task task_id mm))))
   \<and> snd (delete_task task_id mm)
       = mm\<lparr>important_memories_collection :=
              filter (\<lambda>r. rec_id r \<noteq> task_id) (important_memories_collection mm)\<rparr>"
  by (auto simp add: delete_task_def coll_delete_def)

text \<open>
  Claim C7 as stated fails: the id \<open>no-such-task\<close> is not stored in the empty manager,
  and \<open>delete_task\<close> reports success, not failure.
\<close>

theorem delete_missing_task_counterexample:
  "''no-such-task'' \<notin> set (map rec_id (important_memories_collection empty_manager))
   \<and> fst (delete_task ''no-such-task'' empty_manager) \<noteq> False"
  by (simp add: delete_task_def coll_delete_def empty_manager_def)

section \<open>Mood values\<close>

lemma py_int_trunc: "py_int (Finite (79/10)) = Inr 7"
  by (simp add: py_int_def)

lemma in_scale_range: "in_scale v = Some w \<Longrightarrow> 1 \<le> w \<and> w \<le> 10"
  by (auto simp: in_scale_def split: if_splits)

lemma mood_values_range: "map_of mood_values s = Some w \<Longrightarrow> 1 \<le> w \<and> w \<le> 10"
  by (auto simp: mood_values_def split: if_splits)

lemma parse_mood_text_range:
  "parse_mood_text float_of s = Some w \<Longrightarrow> 1 \<le> w \<and> w \<le> 10"
  unfolding parse_mood_text_def Let_def
  by (auto split: sum.splits option.splits if_splits
           dest: in_scale_range mood_values_range)

lemma parse_mood_value_range:
  "parse_mood_value float_of mood = Some w \<Longrightarrow> 1 \<le> w \<and> w \<le> 10"
  unfolding parse_mood_value_def
  by (auto split: mood_input.splits sum.splits if_splits
           dest: in_scale_range parse_mood_text_range)

lemma strip_lower_great: "strip (lower ''great'') = ''great''"
  by code_simp

lemma strip_lower_7: "strip (lower ''7'') = ''7''"
  by code_simp

lemma strip_lower_invalid: "strip (lower ''invalid'') = ''invalid''"
  by code_simp

text \<open>The label that \<open>log_mood\<close> records for an accepted value is the label of that
  value in the table.\<close>

lemma value_moods_label:
  assumes "1 \<le> v" and "v \<le> 10"
  shows "\<exists>l. map_of value_moods v = Some l
           \<and> map_of [(''terrible'', 1), (''very_bad'', 2), (''bad'', 3), (''poor'', 4),
                      (''okay'', 5), (''good'', 6), (''very_good'', 7), (''great'', 8),
                      (''excellent'', 9), (''amazing'', 10 :: int)] l = Some v"
proof -
  from assms have "v = 1 \<or> v = 2 \<or> v = 3 \<or> v = 4 \<or> v = 5 \<or> v = 6 \<or> v = 7 \<or> v = 8
                    \<or> v = 9 \<or> v = 10"
    by arith
  then show ?thesis
    by (auto simp: value_moods_def mood_values_def)
qed

lemma log_mood_accepted:
  assumes "parse_mood_value float_of mood = Some v"
      and "mood_id \<notin> set (map rec_id (mood_data_collection mm))"
  shows "\<exists>entry l. fst (log_mood float_of sentiment_of mood_id timestamp mood note ctx mm)
                     = MoodLogged entry timestamp
           \<and> map_of entry ''mood_value'' = Some (JNum (of_int v))
           \<and> map_of entry ''mood_label'' = Some (JStr l)
           \<and> map_of [(''terrible'', 1), (''very_bad'', 2), (''bad'', 3), (''poor'', 4),
                      (''okay'', 5), (''good'', 6), (''very_good'', 7), (''great'', 8),
                      (''excellent'', 9), (''amazing'', 10 :: int)] l = Some v
           \<and> map document (mood_data_collection
                 (snd (log_mood float_of sentiment_of mood_id timestamp mood note ctx mm)))
               = map document (mood_data_collection mm) @ [JsonText (JObj entry)]"
proof -
  have "1 \<le> v \<and> v \<le> 10"
    using assms(1) by (rule parse_mood_value_range)
  then obtain l where l: "map_of value_moods v = Some l"
    "map_of [(''terrible'', 1), (''very_bad'', 2), (''bad'', 3), (''poor'', 4),
             (''okay'', 5), (''good'', 6), (''very_good'', 7), (''great'', 8),
             (''excellent'', 9), (''amazing'', 10 :: int)] l = Some v"
    using value_moods_label by blast
  show ?thesis
    using assms l
    by (cases "note = []")
       (auto simp: log_mood_def Let_def coll_add_def json_dumps_def update_conv')
qed

lemma log_mood_id_taken:
  assumes "parse_mood_value float_of mood = Some v"
      and "mood_id \<in> set (map rec_id (mood_data_collection mm))"
  shows "log_mood float_of sentiment_of mood_id timestamp mood note ctx mm
           = (MoodFailed DuplicateIdError, mm)"
  using assms by (simp add: log_mood_def Let_def coll_add_def)

text \<open>
  Claim C8: where the builtin \<open>float\<close> rejects \<open>great\<close> and \<open>invalid\<close> and reads \<open>7\<close>
  as 7.0, the label \<open>great\<close> parses to 8, the string \<open>7\<close> to 7, the number 7.9 to 7,
  and 11 and \<open>invalid\<close> are rejected. For every input: an integer is accepted exactly
  when it lies in 1..10; a float, and a string that \<open>float\<close> reads as a finite number,
  is truncated towards zero and accepted exactly when the integer lies in 1..10, an
  infinity is rejected; a string that \<open>float\<close> does not read is looked up in the table
  of the ten mood labels and rejected when it is none of them; any other value is
  treated as its text. Every accepted value lies in 1..10. \<open>log_mood\<close> answers a
  rejected value with the structured failure \<open>Invalid mood value\<close> and leaves the store
  untouched; it logs an accepted value under its label, and answers a taken id with a
  structured failure too.
\<close>

theorem mood_value_parsing:
  assumes "float_of ''great'' = None"
      and "float_of ''7'' = Some (Finite 7)"
      and "float_of ''invalid'' = None"
  shows "parse_mood_value float_of (MoodStr ''great'') = Some 8
       \<and> parse_mood_value float_of (MoodStr ''7'') = Some 7
       \<and> parse_mood_value float_of (MoodFloat (Finite 7.9)) = Some 7
       \<and> parse_mood_value float_of (MoodInt 11) = None
       \<and> parse_mood_value float_of (MoodStr ''invalid'') = None
       \<and> (\<forall>v. v < 1 \<or> 10 < v \<longrightarrow> parse_mood_value float_of (MoodInt v) = None)
       \<and> (\<forall>s. float_of (strip (lower s)) = None \<and> map_of mood_values (strip (lower s)) = None
              \<longrightarrow> parse_mood_value float_of (MoodStr s) = None)
       \<and> (\<forall>mood w. parse_mood_value float_of mood = Some w \<longrightarrow> 1 \<le> w \<and> w \<le> 10)
       \<and> (\<forall>mood. parse_mood_value float_of mood = None \<longrightarrow>
             log_mood float_of sentiment_of mood_id timestamp mood note ctx mm = (MoodInvalid, mm))
       \<and> (\<forall>i. 1 \<le> i \<and> i \<le> 10 \<longrightarrow> parse_mood_value float_of (MoodInt i) = Some i)
       \<and> (\<forall>b. parse_mood_value float_of (MoodBool b) = (if b then Some 1 else None))
       \<and> (\<forall>r. parse_mood_value float_of (MoodFloat (Finite r))
                = (if 1 \<le> (if 0 \<le> r then \<lfloor>r\<rfloor> else \<lceil>r\<rceil>)
                      \<and> (if 0 \<le> r then \<lfloor>r\<rfloor> else \<lceil>r\<rceil>) \<le> 10
                   then Some (if 0 \<le> r then \<lfloor>r\<rfloor> else \<lceil>r\<rceil>) else None))
       \<and> parse_mood_value float_of (MoodFloat PosInf) = None
       \<and> parse_mood_value float_of (MoodFloat NegInf) = None
       \<and> parse_mood_value float_of (MoodFloat NaN) = None
       \<and> (\<forall>s r. float_of (strip (lower s)) = Some (Finite r) \<longrightarrow>
              parse_mood_value float_of (MoodStr s)
                = (if 1 \<le> (if 0 \<le> r then \<lfloor>r\<rfloor> else \<lceil>r\<rceil>)
                      \<and> (if 0 \<le> r then \<lfloor>r\<rfloor> else \<lceil>r\<rceil>) \<le> 10
                   then Some (if 0 \<le> r then \<lfloor>r\<rfloor> else \<lceil>r\<rceil>) else None))
       \<and> (\<forall>s. float_of (strip (lower s)) = Some PosInf \<or> float_of (strip (lower s)) = Some NegInf
              \<longrightarrow> parse_mood_value float_of (MoodStr s) = None)
       \<and> (\<forall>s. float_of (strip (lower s)) = None \<or> float_of (strip (lower s)) = Some NaN \<longrightarrow>
              parse_mood_value float_of (MoodStr s)
                = map_of [(''terrible'', 1), (''very_bad'', 2), (''bad'', 3), (''poor'', 4),
                          (''okay'', 5), (''good'', 6), (''very_good'', 7), (''great'', 8),
                          (''excellent'', 9), (''amazing'', 10)] (strip (lower s)))
       \<and> (\<forall>s. parse_mood_value float_of (MoodOther s) = parse_mood_value float_of (MoodStr s))
       \<and> (\<forall>mood v. parse_mood_value float_of mood = Some v
              \<and> mood_id \<notin> set (map rec_id (mood_data_collection mm)) \<longrightarrow>
              (\<exists>entry l.
                 fst (log_mood float_of sentiment_of mood_id timestamp mood note ctx mm)
                   = MoodLogged entry timestamp
               \<and> map_of entry ''mood_value'' = Some (JNum (of_int v))
               \<and> map_of entry ''mood_label'' = Some (JStr l)
               \<and> map_of [(''terrible'', 1), (''very_bad'', 2), (''bad'', 3), (''poor'', 4),
                          (''okay'', 5), (''good'', 6), (''very_good'', 7), (''great'', 8),
                          (''excellent'', 9), (''amazing'', 10 :: int)] l = Some v
               \<and> map document (mood_data_collection
                     (snd (log_mood float_of sentiment_of mood_id timestamp mood note ctx mm)))
                   = map document (mood_data_collection mm) @ [JsonText (JObj entry)]))
       \<and> (\<forall>mood v. parse_mood_value float_of mood = Some v
              \<and> mood_id \<in> set (map rec_id (mood_data_collection mm)) \<longrightarrow>
              log_mood float_of sentiment_of mood_id timestamp mood note ctx mm
                = (MoodFailed DuplicateIdError, mm))"
proof -
  have a: "parse_mood_value float_of (MoodStr ''great'') = Some 8"
    using assms(1)
    by (simp add: parse_mood_value_def parse_mood_text_def strip_lower_great mood_values_def)
  have b: "parse_mood_value float_of (MoodStr ''7'') = Some 7"
    using assms(2)
    by (simp add: parse_mood_value_def parse_mood_text_def strip_lower_7 py_int_def in_scale_def)
  have c: "parse_mood_value float_of (MoodFloat (Finite 7.9)) = Some 7"
    by (simp add: parse_mood_value_def py_int_def in_scale_def)
  have d: "parse_mood_value float_of (MoodInt 11) = None"
    by (simp add: parse_mood_value_def in_scale_def)
  have e: "parse_mood_value float_of (MoodStr ''invalid'') = None"
    using assms(3)
    by (simp add: parse_mood_value_def parse_mood_text_def strip_lower_invalid mood_values_def)
  have f: "\<forall>v. v < 1 \<or> 10 < v \<longrightarrow> parse_mood_value float_of (MoodInt v) = None"
    by (auto simp: parse_mood_value_def in_scale_def)
  have g: "\<forall>s. float_of (strip (lower s)) = None \<and> map_of mood_values (strip (lower s)) = None
              \<longrightarrow> parse_mood_value float_of (MoodStr s) = None"
    by (simp add: parse_mood_value_def parse_mood_text_def)
  have h: "\<forall>mood w. parse_mood_value float_of mood = Some w \<longrightarrow> 1 \<le> w \<and> w \<le> 10"
    using parse_mood_value_range by blast
  have i: "\<forall>mood. parse_mood_value float_of mood = None \<longrightarrow>
             log_mood float_of sentiment_of mood_id timestamp mood note ctx mm = (MoodInvalid, mm)"
    by (simp add: log_mood_def)
  have j: "\<forall>i. 1 \<le> i \<and> i \<le> 10 \<longrightarrow> parse_mood_value float_of (MoodInt i) = Some i"
    by (simp add: parse_mood_value_def in_scale_def)
  have k: "\<forall>b. parse_mood_value float_of (MoodBool b) = (if b then Some 1 else None)"
    by (simp add: parse_mood_value_def in_scale_def)
  have l: "\<forall>r. parse_mood_value float_of (MoodFloat (Finite r))
                = (if 1 \<le> (if 0 \<le> r then \<lfloor>r\<rfloor> else \<lceil>r\<rceil>)
                      \<and> (if 0 \<le> r then \<lfloor>r\<rfloor> else \<lceil>r\<rceil>) \<le> 10
                   then Some (if 0 \<le> r then \<lfloor>r\<rfloor> else \<lceil>r\<rceil>) else None)"
    by (simp add: parse_mood_value_def py_int_def in_scale_def)
  have m: "parse_mood_value float_of (MoodFloat PosInf) = None
         \<and> parse_mood_value float_of (MoodFloat NegInf) = None
         \<and> parse_mood_value float_of (MoodFloat NaN) = None"
    by (simp add: parse_mood_value_def py_int_def)
  have n: "\<forall>s r. float_of (strip (lower s)) = Some (Finite r) \<longrightarrow>
              parse_mood_value float_of (MoodStr s)
                = (if 1 \<le> (if 0 \<le> r then \<lfloor>r\<rfloor> else \<lceil>r\<rceil>)
                      \<and> (if 0 \<le> r then \<lfloor>r\<rfloor> else \<lceil>r\<rceil>) \<le> 10
                   then Some (if 0 \<le> r then \<lfloor>r\<rfloor> else \<lceil>r\<rceil>) else None)"
    by (simp add: parse_mood_value_def parse_mood_text_def py_int_def in_scale_def)
  have o: "\<forall>s. float_of (strip (lower s)) = Some PosInf \<or> float_of (strip (lower s)) = Some NegInf
              \<longrightarrow> parse_mood_value float_of (MoodStr s) = None"
    by (auto simp: parse_mood_value_def parse_mood_text_def py_int_def)
  have p: "\<forall>s. float_of (strip (lower s)) = None \<or> float_of (strip (lower s)) = Some NaN \<longrightarrow>
              parse_mood_value float_of (MoodStr s)
                = map_of [(''terrible'', 1), (''very_bad'', 2), (''bad'', 3), (''poor'', 4),
                          (''okay'', 5), (''good'', 6), (''very_good'', 7), (''great'', 8),
                          (''excellent'', 9), (''amazing'', 10)] (strip (lower s))"
    by (auto simp: parse_mood_value_def parse_mood_text_def py_int_def mood_values_def)
  have q: "\<forall>s. parse_mood_value float_of (MoodOther s) = parse_mood_value float_of (MoodStr s)"
    by (simp add: parse_mood_value_def)
  have r: "\<forall>mood v. parse_mood_value float_of mood = Some v
              \<and> mood_id \<notin> set (map rec_id (mood_data_collection mm)) \<longrightarrow>
              (\<exists>entry l.
                 fst (log_mood float_of sentiment_of mood_id timestamp mood note ctx mm)
                   = MoodLogged entry timestamp
               \<and> map_of entry ''mood_value'' = Some (JNum (of_int v))
               \<and> map_of entry ''mood_label'' = Some (JStr l)
               \<and> map_of [(''terrible'', 1), (''very_bad'', 2), (''bad'', 3), (''poor'', 4),
                          (''okay'', 5), (''good'', 6), (''very_good'', 7), (''great'', 8),
                          (''excellent'', 9), (''amazing'', 10 :: int)] l = Some v
               \<and> map document (mood_data_collection
                     (snd (log_mood float_of sentiment_of mood_id timestamp mood note ctx mm)))
                   = map document (mood_data_collection mm) @ [JsonText (JObj entry)])"
    using log_mood_accepted by blast
  have s: "\<forall>mood v. parse_mood_value float_of mood = Some v
              \<and> mood_id \<in> set (map rec_id (mood_data_collection mm)) \<longrightarrow>
              log_mood float_of sentiment_of mood_id timestamp mood note ctx mm
                = (MoodFailed DuplicateIdError, mm)"
    using log_mood_id_taken by blast
  show ?thesis
    using a b c d e f g h i j k l m n o p q r s by (intro conjI) blast+
qed

lemma float_of_digits_great: "float_of_digits ''great'' = None"
  by code_simp

lemma float_of_digits_7: "float_of_digits ''7'' = Some (Finite 7)"
  by code_simp

lemma float_of_digits_invalid: "float_of_digits ''invalid'' = None"
  by code_simp

lemma float_of_digits_11: "float_of_digits (strip (lower ''11'')) = Some (Finite 11)"
  by code_simp

text \<open>The examples of the specification, with the number 11 also as the string of a
  \<open>#mood 11\<close> command and as a float.\<close>

theorem mood_value_parsing_witness:
  "float_of_digits ''great'' = None \<and> float_of_digits ''7'' = Some (Finite 7)
   \<and> float_of_digits ''invalid'' = None
   \<and> parse_mood_value float_of_digits (MoodStr ''great'') = Some 8
   \<and> parse_mood_value float_of_digits (MoodStr ''7'') = Some 7
   \<and> parse_mood_value float_of_digits (MoodFloat (Finite 7.9)) = Some 7
   \<and> parse_mood_value float_of_digits (MoodInt 11) = None
   \<and> parse_mood_value float_of_digits (MoodStr ''invalid'') = None
   \<and> parse_mood_value float_of_digits (MoodStr ''11'') = None
   \<and> parse_mood_value float_of_digits (MoodFloat (Finite 11)) = None
   \<and> log_mood float_of_digits (\<lambda>n. JNull) ''mood-1'' ''2024-12-01T09:00:00+00:00''
        (MoodInt 11) [] None empty_manager = (MoodInvalid, empty_manager)
   \<and> log_mood float_of_digits (\<lambda>n. JNull) ''mood-1'' ''2024-12-01T09:00:00+00:00''
        (MoodStr ''11'') [] None empty_manager = (MoodInvalid, empty_manager)"
proof -
  note parsing = mood_value_parsing
          [OF float_of_digits_great float_of_digits_7 float_of_digits_invalid,
           of "\<lambda>n. JNull" "''mood-1''" "''2024-12-01T09:00:00+00:00''" "[]" None empty_manager]
  have eleven: "parse_mood_value float_of_digits (MoodStr ''11'') = None"
    using parsing float_of_digits_11 by simp
  have eleven_float: "parse_mood_value float_of_digits (MoodFloat (Finite 11)) = None"
    using parsing by simp
  show ?thesis
    using parsing eleven eleven_float
          float_of_digits_great float_of_digits_7 float_of_digits_invalid
    by blast
qed

section \<open>Adding a task\<close>

lemma key_in_priority_levels:
  "hashable priority \<Longrightarrow>
   key_in priority priority_levels
     = Inr (priority \<in> JStr ` {''low'', ''medium'', ''high'', ''urgent''})"
  by (cases priority) (auto simp: key_in_def priority_levels_def hashable_def)

lemma key_in_task_categories:
  "hashable category \<Longrightarrow>
   key_in category task_categories
     = Inr (category \<in> JStr ` {''self_care'', ''mindfulness'', ''exercise'', ''social'',
                                  ''work'', ''personal'', ''health'', ''learning'',
                                  ''creative'', ''household''})"
  by (cases category) (auto simp: key_in_def task_categories_def hashable_def)

lemma parse_due_date_total:
  "\<not> truthy due_date \<or> (\<exists>s. due_date = JStr s)
     \<Longrightarrow> \<exists>parsed. parse_due_date fromisoformat_iso strptime_iso due_date = Inr parsed"
  by (auto simp: parse_due_date_def split: option.splits)

lemma generate_wellness_suggestions_total:
  "hashable category \<Longrightarrow> \<exists>xs. generate_wellness_suggestions category wellness_impact = Inr xs"
  by (simp add: generate_wellness_suggestions_def Let_def)

text \<open>The record of a task that has its required keys and a string id.\<close>

lemma task_record_of_keys:
  assumes "map_of task ''id'' = Some (JStr task_id)"
      and "map_of task ''status'' = Some st" and "map_of task ''priority'' = Some pr"
      and "map_of task ''category'' = Some ca" and "map_of task ''created_at'' = Some cr"
      and "map_of task ''wellness_impact'' = Some wi"
  shows "\<exists>md. task_record task
           = Inr \<lparr> rec_id = task_id, document = JsonText (JObj task), metadata = md \<rparr>"
  using assms
  by (simp add: task_record_def ebind_def subscript_def dict_get_def id_string_def
                json_dumps_def split: option.splits)

lemma save_task_documents:
  assumes "map_of task ''id'' = Some (JStr task_id)"
      and "map_of task ''status'' = Some st" and "map_of task ''priority'' = Some pr"
      and "map_of task ''category'' = Some ca" and "map_of task ''created_at'' = Some cr"
      and "map_of task ''wellness_impact'' = Some wi"
  shows "map document (important_memories_collection (save_task_to_memory task mm))
           = (if task_id \<in> set (map rec_id (important_memories_collection mm))
              then map document (important_memories_collection mm)
              else map document (important_memories_collection mm) @ [JsonText (JObj task)])"
proof -
  obtain md where
    "task_record task = Inr \<lparr> rec_id = task_id, document = JsonText (JObj task), metadata = md \<rparr>"
    using task_record_of_keys [OF assms] by blast
  then show ?thesis
    by (simp add: save_task_to_memory_def ebind_def coll_add_def)
qed

text \<open>With hashable priority and category the task is created.\<close>

lemma add_task_hashable_succeeds:
  assumes "task_title = JStr t" and "description = JStr d"
      and "\<not> truthy due_date \<or> (\<exists>s. due_date = JStr s)"
      and "hashable priority" and "hashable category"
  shows "\<exists>task. fst (add_task fromisoformat_iso strptime_iso task_id timestamp
                  task_title description priority due_date category wellness_impact mm)
             = TaskOk task
     \<and> map_of task ''priority''
         = Some (if priority \<in> JStr ` {''low'', ''medium'', ''high'', ''urgent''}
                 then priority else JStr ''medium'')
     \<and> map_of task ''category''
         = Some (if category \<in> JStr ` {''self_care'', ''mindfulness'', ''exercise'', ''social'',
                                         ''work'', ''personal'', ''health'', ''learning'',
                                         ''creative'', ''household''}
                 then category else JStr ''personal'')
     \<and> map_of task ''status'' = Some (JStr ''pending'')
     \<and> (hashable wellness_impact \<longrightarrow>
          map document (important_memories_collection
            (snd (add_task fromisoformat_iso strptime_iso task_id timestamp
                    task_title description priority due_date category wellness_impact mm)))
          = (if task_id \<in> set (map rec_id (important_memories_collection mm))
             then map document (important_memories_collection mm)
             else map document (important_memories_collection mm) @ [JsonText (JObj task)]))"
proof -
  obtain parsed where due: "parse_due_date fromisoformat_iso strptime_iso due_date = Inr parsed"
    using parse_due_date_total [OF assms(3)] by blast
  obtain xs where sug: "generate_wellness_suggestions category wellness_impact = Inr xs"
    using generate_wellness_suggestions_total [OF assms(5)] by blast
  let ?p = "if priority \<in> JStr ` {''low'', ''medium'', ''high'', ''urgent''}
            then priority else JStr ''medium''"
  let ?c = "if category \<in> JStr ` {''self_care'', ''mindfulness'', ''exercise'', ''social'',
                                    ''work'', ''personal'', ''health'', ''learning'',
                                    ''creative'', ''household''}
            then category else JStr ''personal''"
  let ?task = "[(''id'', JStr task_id), (''title'', JStr (strip t)),
                (''description'', JStr (strip d)), (''priority'', ?p), (''category'', ?c),
                (''wellness_impact'', wellness_impact), (''status'', JStr ''pending''),
                (''created_at'', JStr timestamp), (''due_date'', opt_str parsed),
                (''completed_at'', JNull),
                (''tags'', JArr (map JStr (extract_tags (t @ '' '' @ d)))),
                (''estimated_effort'', JStr (estimate_effort t d)),
                (''wellness_suggestions'', JArr (map JStr xs))]"
  have new: "new_task fromisoformat_iso strptime_iso task_id timestamp
               task_title description priority due_date category wellness_impact = Inr ?task"
    using assms(1,2) due sug
    by (simp add: new_task_def ebind_def as_str_def
                  key_in_priority_levels [OF assms(4)] key_in_task_categories [OF assms(5)])
  have res: "add_task fromisoformat_iso strptime_iso task_id timestamp
               task_title description priority due_date category wellness_impact mm
             = (TaskOk ?task, save_task_to_memory ?task mm)"
    by (simp add: add_task_def new)
  have stored: "map document (important_memories_collection (save_task_to_memory ?task mm))
           = (if task_id \<in> set (map rec_id (important_memories_collection mm))
              then map document (important_memories_collection mm)
              else map document (important_memories_collection mm) @ [JsonText (JObj ?task)])"
    by (rule save_task_documents) simp_all
  have "fst (add_task fromisoformat_iso strptime_iso task_id timestamp
                  task_title description priority due_date category wellness_impact mm)
             = TaskOk ?task
     \<and> map_of ?task ''priority'' = Some ?p
     \<and> map_of ?task ''category'' = Some ?c
     \<and> map_of ?task ''status'' = Some (JStr ''pending'')
     \<and> (hashable wellness_impact \<longrightarrow>
          map document (important_memories_collection
            (snd (add_task fromisoformat_iso strptime_iso task_id timestamp
                    task_title description priority due_date category wellness_impact mm)))
          = (if task_id \<in> set (map rec_id (important_memories_collection mm))
             then map document (important_memories_collection mm)
             else map document (important_memories_collection mm) @ [JsonText (JObj ?task)]))"
    using stored by (simp add: res)
  then show ?thesis by blast
qed

text \<open>A list or an object as priority or category is rejected: the membership test
  raises TypeError, nothing is stored, and the failure is returned.\<close>

lemma add_task_unhashable_priority:
  assumes "task_title = JStr t" and "description = JStr d"
      and "\<not> truthy due_date \<or> (\<exists>s. due_date = JStr s)"
      and "\<not> hashable priority"
  shows "add_task fromisoformat_iso strptime_iso task_id timestamp
           task_title description priority due_date category wellness_impact mm
         = (TaskFailed TypeError, mm)"
proof -
  obtain parsed where "parse_due_date fromisoformat_iso strptime_iso due_date = Inr parsed"
    using parse_due_date_total [OF assms(3)] by blast
  then show ?thesis
    using assms(1,2,4)
    by (simp add: add_task_def new_task_def ebind_def as_str_def key_in_def)
qed

lemma add_task_unhashable_category:
  assumes "task_title = JStr t" and "description = JStr d"
      and "\<not> truthy due_date \<or> (\<exists>s. due_date = JStr s)"
      and "hashable priority" and "\<not> hashable category"
  shows "add_task fromisoformat_iso strptime_iso task_id timestamp
           task_title description priority due_date category wellness_impact mm
         = (TaskFailed TypeError, mm)"
proof -
  obtain parsed where "parse_due_date fromisoformat_iso strptime_iso due_date = Inr parsed"
    using parse_due_date_total [OF assms(3)] by blast
  then show ?thesis
    using assms(1,2,4,5)
    by (simp add: add_task_def new_task_def ebind_def as_str_def key_in_def)
qed

text \<open>
  Claim C10, as the code has it: let title and description be strings and the due date
  empty or a string. When priority and category are hashable values (anything but a
  list or an object), \<open>add_task\<close> succeeds and returns a task; its priority is the
  given one if that is \<open>low\<close>, \<open>medium\<close>, \<open>high\<close> or \<open>urgent\<close> and \<open>medium\<close>
  otherwise, its category is the given one if that is one of the ten wellness
  categories and \<open>personal\<close> otherwise, and its status is \<open>pending\<close>; with a scalar
  wellness impact the task is appended to \<open>important_memories\<close> unless its id is
  already stored there. When priority or category is a list or an object, \<open>add_task\<close>
  returns the failure of a TypeError and stores nothing.
\<close>

theorem add_task_replaces_unknown_values:
  assumes "task_title = JStr t" and "description = JStr d"
      and "\<not> truthy due_date \<or> (\<exists>s. due_date = JStr s)"
  shows "(hashable priority \<and> hashable category \<longrightarrow>
          (\<exists>task. fst (add_task fromisoformat_iso strptime_iso task_id timestamp
                         task_title description priority due_date category wellness_impact mm)
                    = TaskOk task
            \<and> map_of task ''priority''
                = Some (if priority \<in> JStr ` {''low'', ''medium'', ''high'', ''urgent''}
                        then priority else JStr ''medium'')
            \<and> map_of task ''category''
                = Some (if category \<in> JStr ` {''self_care'', ''mindfulness'', ''exercise'',
                                                ''social'', ''work'', ''personal'', ''health'',
                                                ''learning'', ''creative'', ''household''}
                        then category else JStr ''personal'')
            \<and> map_of task ''status'' = Some (JStr ''pending'')
            \<and> (hashable wellness_impact \<longrightarrow>
                 map document (important_memories_collection
                   (snd (add_task fromisoformat_iso strptime_iso task_id timestamp
                           task_title description priority due_date category wellness_impact
                           mm)))
                 = (if task_id \<in> set (map rec_id (important_memories_collection mm))
                    then map document (important_memories_collection mm)
                    else map document (important_memories_collection mm)
                           @ [JsonText (JObj task)]))))
       \<and> (\<not> hashable priority \<or> \<not> hashable category \<longrightarrow>
            add_task fromisoformat_iso strptime_iso task_id timestamp
              task_title description priority due_date category wellness_impact mm
            = (TaskFailed TypeError, mm))"
proof (intro conjI impI)
  assume "hashable priority \<and> hashable category"
  then have "hashable priority" and "hashable category"
    by simp_all
  then show "\<exists>task. fst (add_task fromisoformat_iso strptime_iso task_id timestamp
                         task_title description priority due_date category wellness_impact mm)
                    = TaskOk task
            \<and> map_of task ''priority''
                = Some (if priority \<in> JStr ` {''low'', ''medium'', ''high'', ''urgent''}
                        then priority else JStr ''medium'')
            \<and> map_of task ''category''
                = Some (if category \<in> JStr ` {''self_care'', ''mindfulness'', ''exercise'',
                                                ''social'', ''work'', ''personal'', ''health'',
                                                ''learning'', ''creative'', ''household''}
                        then category else JStr ''personal'')
            \<and> map_of task ''status'' = Some (JStr ''pending'')
            \<and> (hashable wellness_impact \<longrightarrow>
                 map document (important_memories_collection
                   (snd (add_task fromisoformat_iso strptime_iso task_id timestamp
                           task_title description priority due_date category wellness_impact
                           mm)))
                 = (if task_id \<in> set (map rec_id (important_memories_collection mm))
                    then map document (important_memories_collection mm)
                    else map document (important_memories_collection mm)
                           @ [JsonText (JObj task)]))"
    by (rule add_task_hashable_succeeds [OF assms])
next
  assume "\<not> hashable priority \<or> \<not> hashable category"
  then show "add_task fromisoformat_iso strptime_iso task_id timestamp
              task_title description priority due_date category wellness_impact mm
            = (TaskFailed TypeError, mm)"
    using add_task_unhashable_priority [OF assms] add_task_unhashable_category [OF assms]
    by blast
qed

text \<open>An unknown priority and a priority that is a number, each with an unknown
  category, a known priority with a known category, and a category that is a list, on
  the empty store.\<close>

theorem add_task_replaces_unknown_values_witness:
  "(\<exists>task. fst (add_task one_date_iso no_strptime ''task-1'' ''2024-12-01T09:00:00+00:00''
                  (JStr ''Take a walk'') (JStr []) (JStr ''whenever'') JNull
                  (JStr ''outdoors'') (JStr ''positive'') empty_manager)
             = TaskOk task
     \<and> map_of task ''priority'' = Some (JStr ''medium'')
     \<and> map_of task ''category'' = Some (JStr ''personal'')
     \<and> map_of task ''status'' = Some (JStr ''pending'')
     \<and> map document (important_memories_collection
           (snd (add_task one_date_iso no_strptime ''task-1'' ''2024-12-01T09:00:00+00:00''
                  (JStr ''Take a walk'') (JStr []) (JStr ''whenever'') JNull
                  (JStr ''outdoors'') (JStr ''positive'') empty_manager)))
         = [JsonText (JObj task)])
   \<and> (\<exists>task. fst (add_task one_date_iso no_strptime ''task-1'' ''2024-12-01T09:00:00+00:00''
                  (JStr ''Take a walk'') (JStr []) (JNum 3) (JStr ''2025-01-01'')
                  JNull (JStr ''positive'') empty_manager)
             = TaskOk task
     \<and> map_of task ''priority'' = Some (JStr ''medium'')
     \<and> map_of task ''category'' = Some (JStr ''personal''))
   \<and> (\<exists>task. fst (add_task one_date_iso no_strptime ''task-1'' ''2024-12-01T09:00:00+00:00''
                  (JStr ''Take a walk'') (JStr []) (JStr ''high'') JNull
                  (JStr ''exercise'') (JStr ''positive'') empty_manager)
             = TaskOk task
     \<and> map_of task ''priority'' = Some (JStr ''high'')
     \<and> map_of task ''category'' = Some (JStr ''exercise''))
   \<and> add_task one_date_iso no_strptime ''task-1'' ''2024-12-01T09:00:00+00:00''
        (JStr ''Take a walk'') (JStr []) (JStr ''high'') JNull
        (JArr [JStr ''exercise'', JStr ''health'']) (JStr ''positive'') empty_manager
      = (TaskFailed TypeError, empty_manager)"
proof -
  have due1: "\<not> truthy JNull \<or> (\<exists>s. JNull = JStr s)"
    and due2: "\<not> truthy (JStr ''2025-01-01'') \<or> (\<exists>s. JStr ''2025-01-01'' = JStr s)"
    by (simp_all add: truthy_def)
  have h: "hashable (JStr ''whenever'')" "hashable (JStr ''outdoors'')"
          "hashable (JNum 3)" "hashable JNull" "hashable (JStr ''positive'')"
          "hashable (JStr ''high'')" "hashable (JStr ''exercise'')"
          "\<not> hashable (JArr [JStr ''exercise'', JStr ''health''])"
    by (simp_all add: hashable_def)
  show ?thesis
    using add_task_replaces_unknown_values
            [where priority = "JStr ''whenever''" and category = "JStr ''outdoors''"
               and wellness_impact = "JStr ''positive''" and mm = empty_manager
               and task_id = "''task-1''" and timestamp = "''2024-12-01T09:00:00+00:00''"
               and fromisoformat_iso = one_date_iso and strptime_iso = no_strptime
               and t = "''Take a walk''" and d = "[]",
             OF refl refl due1]
          add_task_replaces_unknown_values
            [where priority = "JNum 3" and category = JNull
               and wellness_impact = "JStr ''positive''" and mm = empty_manager
               and task_id = "''task-1''" and timestamp = "''2024-12-01T09:00:00+00:00''"
               and fromisoformat_iso = one_date_iso and strptime_iso = no_strptime
               and t = "''Take a walk''" and d = "[]",
             OF refl refl due2]
          add_task_replaces_unknown_values
            [where priority = "JStr ''high''" and category = "JStr ''exercise''"
               and wellness_impact = "JStr ''positive''" and mm = empty_manager
               and task_id = "''task-1''" and timestamp = "''2024-12-01T09:00:00+00:00''"
               and fromisoformat_iso = one_date_iso and strptime_iso = no_strptime
               and t = "''Take a walk''" and d = "[]",
             OF refl refl due1]
          add_task_replaces_unknown_values
            [where priority = "JStr ''high''"
               and category = "JArr [JStr ''exercise'', JStr ''health'']"
               and wellness_impact = "JStr ''positive''" and mm = empty_manager
               and task_id = "''task-1''" and timestamp = "''2024-12-01T09:00:00+00:00''"
               and fromisoformat_iso = one_date_iso and strptime_iso = no_strptime
               and t = "''Take a walk''" and d = "[]",
             OF refl refl due1]
          h
    by (auto simp: empty_manager_def)
qed

text \<open>
  Claim C10 as stated fails: a priority that is a JSON list, and likewise a category
  that is a JSON object, is outside the known names, and \<open>add_task\<close> neither
  replaces it nor succeeds; it returns the failure of a TypeError and stores nothing. A
  title that is a number, with an unknown priority, fails as well, on \<open>strip\<close>.
\<close>

theorem add_task_rejects_list_priority_counterexample:
  "add_task one_date_iso no_strptime ''task-1'' ''2024-12-01T09:00:00+00:00''
     (JStr ''Take a walk'') (JStr []) (JArr [JStr ''high'']) JNull
     (JStr ''personal'') (JStr ''neutral'') empty_manager
   = (TaskFailed TypeError, empty_manager)
   \<and> add_task one_date_iso no_strptime ''task-1'' ''2024-12-01T09:00:00+00:00''
     (JStr ''Take a walk'') (JStr []) (JStr ''medium'') JNull
     (JObj [(''name'', JStr ''work'')]) (JStr ''neutral'') empty_manager
   = (TaskFailed TypeError, empty_manager)
   \<and> add_task one_date_iso no_strptime ''task-1'' ''2024-12-01T09:00:00+00:00''
     (JNum 42) (JStr []) (JStr ''whenever'') JNull
     (JStr ''personal'') (JStr ''neutral'') empty_manager
   = (TaskFailed AttributeError, empty_manager)"
  by code_simp

section \<open>Store-this messages\<close>

lemma startswith_iff: "startswith s p \<longleftrightarrow> (\<exists>r. s = p @ r)"
  by (induction s p rule: startswith.induct) auto

lemma contains_split1_tail: "contains sub s \<Longrightarrow> sub \<noteq> [] \<Longrightarrow> \<exists>t. split1_tail sub s = Inr t"
  by (induction s) auto

lemma store_this_has_colon:
  assumes "is_store_this s"
  shows "\<exists>rest. split1_tail '':'' s = Inr rest"
proof -
  from assms consider r where "s = ''store this:'' @ r" | r where "s = ''store this :'' @ r"
    unfolding is_store_this_def startswith_iff by blast
  then show ?thesis by cases auto
qed

text \<open>
  Claim C5: a message whose lower-cased, stripped form starts with \<open>store this:\<close> or
  \<open>store this :\<close> is answered by the store-this branch alone. Extraction raises
  nothing and returns a delta with exactly one entry, under \<open>pets\<close>,
  \<open>support_preferences\<close> or \<open>notes\<close>, holding a one-element list; the delta has no
  \<open>name\<close> key, whatever name declaration the message contains.
\<close>

theorem store_this_skips_name_scan:
  assumes "is_store_this (strip (lower message))"
  shows "\<exists>k v. k \<in> {''pets'', ''support_preferences'', ''notes''}
           \<and> extract_user_facts message = Inr [(k, JArr [JStr v])]
           \<and> map_of [(k, JArr [JStr v])] ''name'' = None"
proof -
  let ?ml = "strip (lower message)"
  obtain rest where rest: "split1_tail '':'' ?ml = Inr rest"
    using store_this_has_colon [OF assms] by blast
  let ?ft = "strip rest"
  have ex: "extract_user_facts message = store_this_facts ?ml"
    using assms by (simp add: extract_user_facts_def)
  consider (dog) "contains ''dog'' ?ft \<and> contains ''name is'' ?ft"
    | (cat) "\<not> (contains ''dog'' ?ft \<and> contains ''name is'' ?ft)"
            "contains ''cat'' ?ft \<and> contains ''name is'' ?ft"
    | (like) "\<not> (contains ''dog'' ?ft \<and> contains ''name is'' ?ft)"
             "\<not> (contains ''cat'' ?ft \<and> contains ''name is'' ?ft)"
             "contains ''like'' ?ft"
    | (enjoy) "\<not> (contains ''dog'' ?ft \<and> contains ''name is'' ?ft)"
             "\<not> (contains ''cat'' ?ft \<and> contains ''name is'' ?ft)"
             "\<not> contains ''like'' ?ft" "contains ''enjoy'' ?ft"
    | (plain) "\<not> (contains ''dog'' ?ft \<and> contains ''name is'' ?ft)"
             "\<not> (contains ''cat'' ?ft \<and> contains ''name is'' ?ft)"
             "\<not> contains ''like'' ?ft" "\<not> contains ''enjoy'' ?ft"
    by blast
  then show ?thesis
  proof cases
    case dog
    then obtain t where "split1_tail ''name is'' ?ft = Inr t"
      using contains_split1_tail by blast
    with dog rest have "store_this_facts ?ml = Inr [(''pets'', JArr [JStr (title (strip t))])]"
      by (auto simp: store_this_facts_def ebind_def Let_def)
    with ex show ?thesis by simp
  next
    case cat
    then obtain t where "split1_tail ''name is'' ?ft = Inr t"
      using contains_split1_tail by blast
    with cat rest have "store_this_facts ?ml = Inr [(''pets'', JArr [JStr (title (strip t))])]"
      by (auto simp: store_this_facts_def ebind_def Let_def)
    with ex show ?thesis by simp
  next
    case like
    then obtain t where "split1_tail ''like'' ?ft = Inr t"
      using contains_split1_tail by blast
    with like rest
    have "store_this_facts ?ml = Inr [(''support_preferences'', JArr [JStr (strip t)])]"
      by (auto simp: store_this_facts_def ebind_def Let_def)
    with ex show ?thesis by simp
  next
    case enjoy
    then obtain t where "split1_tail ''enjoy'' ?ft = Inr t"
      using contains_split1_tail by blast
    with enjoy rest
    have "store_this_facts ?ml = Inr [(''support_preferences'', JArr [JStr (strip t)])]"
      by (auto simp: store_this_facts_def ebind_def Let_def)
    with ex show ?thesis by simp
  next
    case plain
    with rest have "store_this_facts ?ml = Inr [(''notes'', JArr [JStr ?ft])]"
      by (auto simp: store_this_facts_def ebind_def Let_def)
    with ex show ?thesis by simp
  qed
qed

lemma bruno_is_store_this:
  "is_store_this (strip (lower ''Store this: my dog's name is Bruno''))"
  by code_simp

lemma bruno_facts:
  "extract_user_facts ''Store this: my dog's name is Bruno''
     = Inr [(''pets'', JArr [JStr ''Bruno''])]"
  by code_simp

lemma store_this_with_name_declaration:
  "re_search_group ''my name is '' (strip (lower ''Store this: my name is John'')) = Some ''john''
   \<and> extract_user_facts ''Store this: my name is John''
       = Inr [(''notes'', JArr [JStr ''my name is john''])]"
  by code_simp

text \<open>The example of the specification, the dog Bruno; and a store-this message that
  declares a name, which is kept as a note.\<close>

theorem store_this_skips_name_scan_witness:
  "is_store_this (strip (lower ''Store this: my dog's name is Bruno''))
   \<and> extract_user_facts ''Store this: my dog's name is Bruno''
       = Inr [(''pets'', JArr [JStr ''Bruno''])]
   \<and> (\<exists>k v. k \<in> {''pets'', ''support_preferences'', ''notes''}
           \<and> extract_user_facts ''Store this: my dog's name is Bruno'' = Inr [(k, JArr [JStr v])]
           \<and> map_of [(k, JArr [JStr v])] ''name'' = None)
   \<and> extract_user_facts ''Store this: my name is John''
       = Inr [(''notes'', JArr [JStr ''my name is john''])]"
  using store_this_skips_name_scan [OF bruno_is_store_this] bruno_is_store_this bruno_facts
        store_this_with_name_declaration
  by blast

section \<open>Name declarations\<close>

text \<open>
  Claim C4, as the code has it: when a message that is not a store-this message matches
  both name patterns and both trimmed, title-cased names are longer than one character,
  the delta is exactly the \<open>name\<close> entry with the name captured by the last pattern,
  \<open>call me\<close>: the loop runs through both patterns and the later assignment
  overwrites the earlier one.
\<close>

theorem name_last_pattern_wins:
  assumes "\<not> is_store_this (strip (lower message))"
      and "re_search_group ''my name is '' (strip (lower message)) = Some g1"
      and "re_search_group ''call me '' (strip (lower message)) = Some g2"
      and "length (title (strip g1)) > 1"
      and "length (title (strip g2)) > 1"
  shows "extract_user_facts message = Inr [(''name'', JStr (title (strip g2)))]"
  using assms by (simp add: extract_user_facts_def name_patterns_def Let_def)

lemma john_jo_not_store_this:
  "\<not> is_store_this (strip (lower ''My name is John, call me Jo''))"
  by code_simp

lemma john_jo_first_pattern:
  "re_search_group ''my name is '' (strip (lower ''My name is John, call me Jo''))
     = Some ''john''"
  by code_simp

lemma john_jo_second_pattern:
  "re_search_group ''call me '' (strip (lower ''My name is John, call me Jo'')) = Some ''jo''"
  by code_simp

lemma title_john: "title (strip ''john'') = ''John''"
  by code_simp

lemma title_jo: "title (strip ''jo'') = ''Jo''"
  by code_simp

theorem name_last_pattern_wins_witness:
  "\<not> is_store_this (strip (lower ''My name is John, call me Jo''))
   \<and> re_search_group ''my name is '' (strip (lower ''My name is John, call me Jo'')) = Some ''john''
   \<and> re_search_group ''call me '' (strip (lower ''My name is John, call me Jo'')) = Some ''jo''
   \<and> length (title (strip ''john'')) > 1 \<and> length (title (strip ''jo'')) > 1
   \<and> extract_user_facts ''My name is John, call me Jo'' = Inr [(''name'', JStr ''Jo'')]"
proof -
  have l1: "length (title (strip ''john'')) > 1" and l2: "length (title (strip ''jo'')) > 1"
    by (simp_all add: title_john title_jo)
  show ?thesis
    using name_last_pattern_wins
            [OF john_jo_not_store_this john_jo_first_pattern john_jo_second_pattern l1 l2]
          john_jo_not_store_this john_jo_first_pattern john_jo_second_pattern l1 l2 title_jo
    by simp
qed

text \<open>
  Claim C4 as stated fails on \<open>My name is John, call me Jo\<close>: both patterns match with
  names longer than one character, the first pattern captures \<open>john\<close>, and the delta's
  name is \<open>Jo\<close>, not \<open>John\<close>.
\<close>

theorem name_first_pattern_counterexample:
  "re_search_group ''my name is '' (strip (lower ''My name is John, call me Jo'')) = Some ''john''
   \<and> re_search_group ''call me '' (strip (lower ''My name is John, call me Jo'')) = Some ''jo''
   \<and> length (title (strip ''john'')) > 1 \<and> length (title (strip ''jo'')) > 1
   \<and> title (strip ''john'') = ''John''
   \<and> extract_user_facts ''My name is John, call me Jo''
       \<noteq> Inr [(''name'', JStr (title (strip ''john'')))]
   \<and> extract_user_facts ''My name is John, call me Jo'' = Inr [(''name'', JStr ''Jo'')]"
  by code_simp

section \<open>The single profile record\<close>

lemma profile_record_id [simp]: "rec_id (profile_record t P) = profile_id"
  by (simp add: profile_record_def)

lemma sentinel_only_cases:
  assumes "list_all (\<lambda>r. rec_id r = profile_id) c" and "distinct (map rec_id c)"
  shows "c = [] \<or> (\<exists>r. c = [r] \<and> rec_id r = profile_id)"
proof (cases c)
  case Nil then show ?thesis by simp
next
  case (Cons r rs)
  with assms have "rec_id r = profile_id" "list_all (\<lambda>x. rec_id x = profile_id) rs"
    "rec_id r \<notin> set (map rec_id rs)" by auto
  then have "rs = []" by (cases rs) auto
  with Cons \<open>rec_id r = profile_id\<close> show ?thesis by simp
qed

lemma update_user_profile_on_empty:
  "user_profile_collection mm = [] \<Longrightarrow>
   update_user_profile t P mm
     = (ProfileUpdated t profile_id, mm\<lparr>user_profile_collection := [profile_record t P]\<rparr>)"
  by (simp add: update_user_profile_def coll_get_ids_def coll_add_def ebind_def Let_def)

lemma update_user_profile_on_one:
  "user_profile_collection mm = [r] \<Longrightarrow> rec_id r = profile_id \<Longrightarrow>
   update_user_profile t P mm
     = (ProfileUpdated t profile_id, mm\<lparr>user_profile_collection := [profile_record t P]\<rparr>)"
  by (simp add: update_user_profile_def coll_get_ids_def coll_update_def ebind_def Let_def)

lemma update_user_profile_sentinel:
  assumes "list_all (\<lambda>r. rec_id r = profile_id) (user_profile_collection mm)"
      and "distinct (map rec_id (user_profile_collection mm))"
  shows "update_user_profile t P mm
     = (ProfileUpdated t profile_id, mm\<lparr>user_profile_collection := [profile_record t P]\<rparr>)"
  using sentinel_only_cases [OF assms] update_user_profile_on_empty update_user_profile_on_one
  by blast

text \<open>
  Claim C1: on a profile collection that holds nothing but profile records, with unique
  ids, two calls of \<open>update_user_profile\<close> with the same profile both succeed and
  leave exactly one record, whose id is the sentinel \<open>user_profile_main\<close>. The second
  call finds the record of the first and replaces it by one \<open>update\<close> of the store:
  the collection after it is the result of that update, and its count is 1.
\<close>

theorem profile_upsert_twice:
  assumes "list_all (\<lambda>r. rec_id r = profile_id) (user_profile_collection mm)"
      and "distinct (map rec_id (user_profile_collection mm))"
  shows "let first = update_user_profile t1 P mm;
             second = update_user_profile t2 P (snd first)
         in fst first = ProfileUpdated t1 ''user_profile_main''
          \<and> fst second = ProfileUpdated t2 ''user_profile_main''
          \<and> user_profile_collection (snd first) = [profile_record t1 P]
          \<and> user_profile_collection (snd second) = [profile_record t2 P]
          \<and> rec_id (profile_record t2 P) = ''user_profile_main''
          \<and> coll_count (user_profile_collection (snd second)) = 1
          \<and> coll_update (user_profile_collection (snd first)) (profile_record t2 P)
              = Inr (user_profile_collection (snd second))
          \<and> coll_get_ids (user_profile_collection (snd first)) [''user_profile_main'']
              = Inr [profile_record t1 P]"
proof -
  have first: "update_user_profile t1 P mm
     = (ProfileUpdated t1 profile_id, mm\<lparr>user_profile_collection := [profile_record t1 P]\<rparr>)"
    using update_user_profile_sentinel [OF assms] .
  have second: "update_user_profile t2 P (mm\<lparr>user_profile_collection := [profile_record t1 P]\<rparr>)
     = (ProfileUpdated t2 profile_id, mm\<lparr>user_profile_collection := [profile_record t2 P]\<rparr>)"
    by (simp add: update_user_profile_on_one)
  show ?thesis
    by (simp add: Let_def first second coll_count_def coll_update_def coll_get_ids_def
                  profile_id_def)
qed

theorem profile_upsert_twice_witness:
  "list_all (\<lambda>r. rec_id r = profile_id) (user_profile_collection empty_manager)
   \<and> distinct (map rec_id (user_profile_collection empty_manager))
   \<and> (let first = update_user_profile ''2024-12-01T09:00:00+00:00''
                    (JObj [(''name'', JStr ''Alex'')]) empty_manager;
          second = update_user_profile ''2024-12-01T09:05:00+00:00''
                     (JObj [(''name'', JStr ''Alex'')]) (snd first)
      in user_profile_collection (snd second)
           = [profile_record ''2024-12-01T09:05:00+00:00'' (JObj [(''name'', JStr ''Alex'')])]
         \<and> coll_count (user_profile_collection (snd second)) = 1)"
proof -
  have a: "list_all (\<lambda>r. rec_id r = profile_id) (user_profile_collection empty_manager)"
    and b: "distinct (map rec_id (user_profile_collection empty_manager))"
    by (simp_all add: empty_manager_def)
  show ?thesis
    using profile_upsert_twice
            [OF a b, of "''2024-12-01T09:00:00+00:00''" "JObj [(''name'', JStr ''Alex'')]"
                        "''2024-12-01T09:05:00+00:00''"] a b
    by (simp add: Let_def coll_count_def)
qed

section \<open>Relevant memories\<close>

lemma collect_hits_aligned:
  assumes "length ms = length ds" and "length xs = length ds"
  shows "collect_hits name \<lparr>qdocuments = Some [ds], qmetadatas = Some [ms], qdistances = Some [xs]\<rparr>
           i (drop i ds)
         = map (\<lambda>j. \<lparr>content = ds ! j, hit_metadata = ms ! j, hit_collection = name,
                      distance = xs ! j\<rparr>) [i..<length ds]"
proof (induction "length ds - i" arbitrary: i)
  case 0
  then show ?case by simp
next
  case (Suc m)
  then have i: "i < length ds" by simp
  then have d: "drop i ds = ds ! i # drop (Suc i) ds"
    by (simp add: Cons_nth_drop_Suc)
  have u: "[i..<length ds] = i # [Suc i..<length ds]"
    using i by (simp add: upt_conv_Cons)
  have ih: "collect_hits name \<lparr>qdocuments = Some [ds], qmetadatas = Some [ms], qdistances = Some [xs]\<rparr>
           (Suc i) (drop (Suc i) ds)
         = map (\<lambda>j. \<lparr>content = ds ! j, hit_metadata = ms ! j, hit_collection = name,
                      distance = xs ! j\<rparr>) [Suc i..<length ds]"
    using Suc by (intro Suc.hyps(1)) simp
  show ?case
    unfolding d u using i assms ih
    by (simp add: metadata_at_def distance_at_def nth_exc_def ebind_def)
qed

lemma query_hits_ranked:
  "(case coll_query distance_of c query k of
      Inl e \<Rightarrow> []
    | Inr results \<Rightarrow> query_hits name results) = ranked_hits distance_of query k name c"
proof -
  let ?ranked = "take (nat k) (sort_key (\<lambda>r. distance_of query (document r)) c)"
  have "collect_hits name
          \<lparr>qdocuments = Some [map document ?ranked], qmetadatas = Some [map metadata ?ranked],
           qdistances = Some [map (\<lambda>r. distance_of query (document r)) ?ranked]\<rparr>
          0 (drop 0 (map document ?ranked))
        = map (\<lambda>j. \<lparr>content = map document ?ranked ! j, hit_metadata = map metadata ?ranked ! j,
                     hit_collection = name,
                     distance = map (\<lambda>r. distance_of query (document r)) ?ranked ! j\<rparr>)
              [0..<length (map document ?ranked)]"
    by (rule collect_hits_aligned) simp_all
  also have "\<dots> = map (\<lambda>r. \<lparr> content = document r, hit_metadata = metadata r,
                hit_collection = name,
                distance = distance_of query (document r) \<rparr>) (map ((!) ?ranked) [0..<length ?ranked])"
    by (simp del: upt_Suc)
  also have "\<dots> = ranked_hits distance_of query k name c"
    by (simp only: map_nth ranked_hits_def)
  finally show ?thesis
    by (simp add: coll_query_def query_hits_def Let_def)
qed

lemma relevant_memories_hits:
  "get_relevant_memories distance_of mm query n
     = py_slice_to n (sort_key distance
         (ranked_hits distance_of query (min n 3) ''reflections'' (reflections_collection mm)
          @ ranked_hits distance_of query (min n 3) ''important_memories''
              (important_memories_collection mm)
          @ ranked_hits distance_of query (min n 3) ''user_profile''
              (user_profile_collection mm)))"
  by (simp add: get_relevant_memories_def searched_collections_def query_hits_ranked)

lemma ranked_hits_nonpositive: "k \<le> 0 \<Longrightarrow> ranked_hits distance_of query k name c = []"
  by (simp add: ranked_hits_def)

lemma length_ranked_hits:
  "length (ranked_hits distance_of query k name c) = min (nat k) (length c)"
  by (simp add: ranked_hits_def)

text \<open>
  Claim C3: for every query and every \<open>n\<close>, \<open>get_relevant_memories\<close> returns the
  first \<open>n\<close> of the stably sorted union of three tagged lists: the \<open>min n 3\<close>
  nearest records of \<open>reflections\<close>, of \<open>important_memories\<close> and of
  \<open>user_profile\<close>, each queried on its own. The result ascends in distance and has at
  most \<open>n\<close> elements, each collection contributes at most \<open>min n 3\<close> hits, and
  hits of equal distance keep the order in which the collections were queried and
  ranked.
\<close>

theorem relevant_memories_ranking:
  "let k = min n 3;
       hits = ranked_hits distance_of query k ''reflections'' (reflections_collection mm)
            @ ranked_hits distance_of query k ''important_memories''
                (important_memories_collection mm)
            @ ranked_hits distance_of query k ''user_profile'' (user_profile_collection mm);
       result = get_relevant_memories distance_of mm query n
   in result = take (nat n) (sort_key distance hits)
    \<and> sorted (map distance result)
    \<and> length result \<le> nat n
    \<and> nat k \<le> 3
    \<and> (\<forall>name c. length (ranked_hits distance_of query k name c) \<le> nat k)
    \<and> (\<forall>x. filter (\<lambda>h. distance h = x) (sort_key distance hits)
              = filter (\<lambda>h. distance h = x) hits)"
proof -
  let ?k = "min n 3"
  let ?hits = "ranked_hits distance_of query ?k ''reflections'' (reflections_collection mm)
            @ ranked_hits distance_of query ?k ''important_memories''
                (important_memories_collection mm)
            @ ranked_hits distance_of query ?k ''user_profile'' (user_profile_collection mm)"
  have res: "get_relevant_memories distance_of mm query n = take (nat n) (sort_key distance ?hits)"
  proof (cases "0 \<le> n")
    case True
    then show ?thesis by (simp add: relevant_memories_hits py_slice_to_def)
  next
    case False
    then have "?hits = []" by (simp add: ranked_hits_nonpositive)
    then show ?thesis by (simp add: relevant_memories_hits py_slice_to_def)
  qed
  have srt: "sorted (map distance (take (nat n) (sort_key distance ?hits)))"
    by (simp add: take_map [symmetric] sorted_wrt_take del: take_map)
  have len: "nat ?k \<le> 3
      \<and> (\<forall>name c. length (ranked_hits distance_of query ?k name c) \<le> nat ?k)"
    by (simp add: length_ranked_hits)
  have stable: "\<forall>x. filter (\<lambda>h. distance h = x) (sort_key distance ?hits)
              = filter (\<lambda>h. distance h = x) ?hits"
    by (simp add: sort_key_stable)
  show ?thesis
    unfolding Let_def res using srt len stable by simp
qed

lemma three_memories_result:
  "map distance (get_relevant_memories three_distances three_memories ''how am I doing'' 2)
     = [0.2, 0.5]
   \<and> map hit_collection
         (get_relevant_memories three_distances three_memories ''how am I doing'' 2)
       = [''important_memories'', ''user_profile'']"
  by code_simp

text \<open>The example of the specification: distances 0.9, 0.2 and 0.5 in three collections,
  \<open>n = 2\<close>.\<close>

theorem relevant_memories_ranking_witness:
  "sorted (map distance
     (get_relevant_memories three_distances three_memories ''how am I doing'' 2))
   \<and> length (get_relevant_memories three_distances three_memories ''how am I doing'' 2) \<le> 2
   \<and> map distance (get_relevant_memories three_distances three_memories ''how am I doing'' 2)
       = [0.2, 0.5]
   \<and> map hit_collection
         (get_relevant_memories three_distances three_memories ''how am I doing'' 2)
       = [''important_memories'', ''user_profile'']"
  using relevant_memories_ranking [of 2 three_distances "''how am I doing''" three_memories]
        three_memories_result
  by (simp add: Let_def)

section \<open>Reading mood entries\<close>

lemma py_insort_total:
  assumes "\<And>a b. a \<in> insert (fst x) (fst ` set ys) \<Longrightarrow> b \<in> insert (fst x) (fst ` set ys)
                  \<Longrightarrow> lt a b = Some (f a < f b)"
  shows "py_insort lt x ys = Some (insort_key (\<lambda>p. f (fst p)) x ys)"
  using assms
proof (induction ys)
  case Nil
  then show ?case by simp
next
  case (Cons y ys)
  have "lt (fst y) (fst x) = Some (f (fst y) < f (fst x))"
    using Cons.prems by simp
  moreover have "py_insort lt x ys = Some (insort_key (\<lambda>p. f (fst p)) x ys)"
    using Cons.prems by (intro Cons.IH) auto
  ultimately show ?case by (auto simp: not_less split: bool.splits)
qed

lemma py_sort_total:
  assumes "\<And>a b. a \<in> fst ` set xs \<Longrightarrow> b \<in> fst ` set xs \<Longrightarrow> lt a b = Some (f a < f b)"
  shows "py_sort lt xs = Some (sort_key (\<lambda>p. f (fst p)) xs)"
  using assms
proof (induction xs)
  case Nil
  then show ?case by simp
next
  case (Cons x xs)
  have ih: "py_sort lt xs = Some (sort_key (\<lambda>p. f (fst p)) xs)"
    using Cons.prems by (intro Cons.IH) auto
  have "py_insort lt x (sort_key (\<lambda>p. f (fst p)) xs)
          = Some (insort_key (\<lambda>p. f (fst p)) x (sort_key (\<lambda>p. f (fst p)) xs))"
    using Cons.prems by (intro py_insort_total) auto
  with ih show ?case by simp
qed

lemma py_lt_strings [simp]: "py_lt (JStr x) (JStr y) = Some (x < y)"
  by (simp add: py_lt.simps(1))

lemma sort_key_tagged:
  "sort_key (\<lambda>p. f (fst p)) (map (\<lambda>v. (g v, v)) xs)
     = map (\<lambda>v. (g v, v)) (sort_key (\<lambda>v. f (g v)) xs)"
proof (induction xs)
  case Nil
  then show ?case by simp
next
  case (Cons x xs)
  have "insort_key (\<lambda>p. f (fst p)) (g x, x) (map (\<lambda>v. (g v, v)) ys)
          = map (\<lambda>v. (g v, v)) (insort_key (\<lambda>v. f (g v)) x ys)" for ys
    by (induction ys) auto
  with Cons show ?case by simp
qed

lemma read_mood_entry_json:
  "read_mood_entry fromisoformat start_date end_date (JsonText v)
     = Inr (Some v) \<longleftrightarrow> entry_in_range fromisoformat start_date end_date v"
  unfolding read_mood_entry_def entry_in_range_def
  by (auto simp: ebind_def json_loads_def subscript_def str_replace_Z_def
           split: json.splits option.splits sum.splits)

lemma read_mood_entry_text:
  "read_mood_entry fromisoformat start_date end_date (Text s) = Inl JSONDecodeError"
  by (simp add: read_mood_entry_def ebind_def json_loads_def)

lemma read_mood_entries_filter:
  "read_mood_entries fromisoformat start_date end_date docs
     = filter (entry_in_range fromisoformat start_date end_date) (decoded docs)"
proof (induction docs)
  case Nil
  then show ?case by simp
next
  case (Cons doc docs)
  show ?case
  proof (cases doc)
    case (Text s)
    with Cons show ?thesis by (simp add: read_mood_entry_text)
  next
    case (JsonText v)
    show ?thesis
    proof (cases "entry_in_range fromisoformat start_date end_date v")
      case True
      then have "read_mood_entry fromisoformat start_date end_date (JsonText v) = Inr (Some v)"
        by (simp add: read_mood_entry_json)
      with True Cons JsonText show ?thesis by simp
    next
      case False
      then have "read_mood_entry fromisoformat start_date end_date (JsonText v) \<noteq> Inr (Some v)"
        by (simp add: read_mood_entry_json)
      moreover have "read_mood_entry fromisoformat start_date end_date (JsonText v) = Inr (Some w)
                     \<Longrightarrow> w = v" for w
        unfolding read_mood_entry_def
        by (auto simp: ebind_def json_loads_def split: sum.splits if_splits)
      ultimately have
        "\<forall>w. read_mood_entry fromisoformat start_date end_date (JsonText v) \<noteq> Inr (Some w)"
        by blast
      with False Cons JsonText show ?thesis
        by (auto split: sum.splits option.splits)
    qed
  qed
qed

lemma timestamp_key_in_range:
  "entry_in_range fromisoformat start_date end_date v
     \<Longrightarrow> timestamp_key v = Inr (JStr (timestamp_of v))"
  by (auto simp: entry_in_range_def timestamp_key_def timestamp_of_def subscript_def
           split: json.splits option.splits)

lemma keyed_in_range:
  "list_all (entry_in_range fromisoformat start_date end_date) entries
     \<Longrightarrow> keyed timestamp_key entries = Inr (map (\<lambda>v. (JStr (timestamp_of v), v)) entries)"
  by (induction entries) (auto simp: ebind_def timestamp_key_in_range)

lemma sort_entries_in_range:
  assumes "list_all (entry_in_range fromisoformat start_date end_date) entries"
  shows "sort_entries entries = Inr (sort_key timestamp_of entries)"
proof -
  let ?ks = "map (\<lambda>v. (JStr (timestamp_of v), v)) entries"
  have "py_sort py_lt ?ks = Some (sort_key (\<lambda>p. str_of (fst p)) ?ks)"
    by (rule py_sort_total) (auto simp: str_of_def)
  also have "sort_key (\<lambda>p. str_of (fst p)) ?ks
               = map (\<lambda>v. (JStr (timestamp_of v), v))
                     (sort_key (\<lambda>v. str_of (JStr (timestamp_of v))) entries)"
    by (rule sort_key_tagged)
  finally have "py_sort py_lt ?ks
      = Some (map (\<lambda>v. (JStr (timestamp_of v), v)) (sort_key timestamp_of entries))"
    by (simp add: str_of_def)
  then show ?thesis
    using keyed_in_range [OF assms]
    by (simp add: sort_entries_def ebind_def comp_def)
qed

text \<open>
  Claim C9: the bulk read over the stored mood documents returns exactly the entries
  whose document deserializes and whose timestamp lies in the range, each once, ordered
  by timestamp. A document that does not deserialize, or whose timestamp is missing,
  unreadable or out of range, is skipped on its own; it neither empties the result nor
  raises.
\<close>

theorem mood_batch_read_skips_malformed:
  "let docs = map document (filter (matches_where [(''type'', JStr ''mood_entry'')])
                               (mood_data_collection mm));
       readable = filter (entry_in_range fromisoformat start_date end_date) (decoded docs);
       result = get_mood_entries_in_range fromisoformat start_date end_date mm
   in result = sort_key timestamp_of readable
    \<and> mset result = mset readable
    \<and> length result = length readable
    \<and> sorted (map timestamp_of result)"
proof -
  let ?docs = "map document (filter (matches_where [(''type'', JStr ''mood_entry'')])
                               (mood_data_collection mm))"
  let ?readable = "filter (entry_in_range fromisoformat start_date end_date) (decoded ?docs)"
  have "list_all (entry_in_range fromisoformat start_date end_date) ?readable"
    by (simp add: list_all_iff)
  then have "sort_entries ?readable = Inr (sort_key timestamp_of ?readable)"
    by (rule sort_entries_in_range)
  then have "get_mood_entries_in_range fromisoformat start_date end_date mm
               = sort_key timestamp_of ?readable"
    by (simp add: get_mood_entries_in_range_def coll_get_where_def ebind_def
                  read_mood_entries_filter)
  then show ?thesis
    by (simp add: Let_def)
qed

lemma five_moods_result:
  "map timestamp_of (get_mood_entries_in_range december_dates (Aware 0) (Aware 10) five_moods)
     = [''2024-12-01T08:00:00+00:00'', ''2024-12-02T08:00:00+00:00'',
        ''2024-12-03T08:00:00Z'', ''2024-12-04T08:00:00+00:00'']"
  by code_simp

lemma five_moods_stored:
  "length (mood_data_collection five_moods) = 5
   \<and> length (decoded (map document (mood_data_collection five_moods))) = 4"
  by code_simp

text \<open>The example of the specification: five stored documents, one malformed, four
  entries returned.\<close>

theorem mood_batch_read_skips_malformed_witness:
  "length (mood_data_collection five_moods) = 5
   \<and> length (decoded (map document (mood_data_collection five_moods))) = 4
   \<and> map timestamp_of
         (get_mood_entries_in_range december_dates (Aware 0) (Aware 10) five_moods)
       = [''2024-12-01T08:00:00+00:00'', ''2024-12-02T08:00:00+00:00'',
          ''2024-12-03T08:00:00Z'', ''2024-12-04T08:00:00+00:00'']
   \<and> sorted (map timestamp_of
         (get_mood_entries_in_range december_dates (Aware 0) (Aware 10) five_moods))"
  using mood_batch_read_skips_malformed [of five_moods december_dates "Aware 0" "Aware 10"]
        five_moods_result five_moods_stored
  by (simp add: Let_def)

section \<open>Merging facts into the profile\<close>

lemma py_eq_string: "is_string x \<Longrightarrow> py_eq x y \<longleftrightarrow> x = y"
  by (auto simp: is_string_def py_eq_def py_num_def split: json.splits)

lemma set_add_string:
  "is_string x \<Longrightarrow> set_add elems x = (if x \<in> set elems then elems else elems @ [x])"
  by (auto simp: set_add_def list_ex_iff py_eq_string)

lemma foldl_set_add_strings:
  "list_all is_string xs \<Longrightarrow> distinct acc \<Longrightarrow>
   distinct (foldl set_add acc xs) \<and> set (foldl set_add acc xs) = set acc \<union> set xs"
proof (induction xs arbitrary: acc)
  case Nil
  then show ?case by simp
next
  case (Cons x xs)
  then have x: "is_string x" and xs: "list_all is_string xs" by simp_all
  have d: "distinct (set_add acc x)" and s: "set (set_add acc x) = insert x (set acc)"
    using Cons.prems(2) by (auto simp: set_add_string [OF x])
  from Cons.IH [OF xs d] s show ?case by auto
qed

lemma is_string_hashable: "is_string x \<Longrightarrow> hashable x"
  by (auto simp: is_string_def hashable_def split: json.splits)

lemma py_list_of_set_strings:
  assumes perm: "\<And>ys. mset (iteration_order ys) = mset ys"
      and str: "list_all is_string xs"
  shows "\<exists>ys. py_list_of_set iteration_order xs = Inr ys \<and> distinct ys \<and> set ys = set xs"
proof -
  let ?elems = "foldl set_add [] xs"
  have e: "distinct ?elems \<and> set ?elems = set xs"
    using foldl_set_add_strings [OF str, of "[]"] by simp
  have h: "list_all hashable xs"
    using str by (auto simp: list_all_iff is_string_hashable)
  have "distinct (iteration_order ?elems)"
    using perm [of ?elems] e by (metis mset_eq_imp_distinct_iff)
  moreover have "set (iteration_order ?elems) = set xs"
    using perm [of ?elems] e by (metis mset_eq_setD)
  ultimately show ?thesis
    using h by (simp add: py_list_of_set_def)
qed

lemma map_of_update: "map_of (AList.update k v al) k' = (if k' = k then Some v else map_of al k')"
  by (simp add: update_conv')

lemma existing_list_update_other:
  "key \<noteq> k \<Longrightarrow> existing_list (AList.update k v p) key = existing_list p key"
  by (simp add: existing_list_def map_of_update)

lemma string_lists_update:
  "string_lists p \<Longrightarrow> string_items v \<Longrightarrow> string_lists (AList.update k v p)"
  by (induction p) (auto simp: string_lists_def)

lemma existing_list_strings:
  "string_lists p \<Longrightarrow> list_all is_string (existing_list p key)"
proof -
  assume p: "string_lists p"
  show ?thesis
  proof (cases "map_of p key")
    case None
    then show ?thesis by (simp add: existing_list_def)
  next
    case (Some v)
    then have "(key, v) \<in> set p" by (rule map_of_SomeD)
    with p have "string_items v" by (auto simp: string_lists_def list_all_iff)
    with Some show ?thesis
      by (auto simp: existing_list_def string_items_def split: json.splits)
  qed
qed

lemma merge_facts_other_key:
  "merge_facts iteration_order p facts = Inr p' \<Longrightarrow> key \<notin> fst ` set facts
     \<Longrightarrow> map_of p' key = map_of p key"
proof (induction facts arbitrary: p)
  case Nil
  then show ?case by simp
next
  case (Cons kv facts)
  obtain k v where kv: "kv = (k, v)" by (cases kv)
  with Cons.prems have ne: "key \<noteq> k" and nin: "key \<notin> fst ` set facts" by auto
  show ?case
  proof (cases "\<exists>new_items. v = JArr new_items")
    case True
    then obtain new_items where v: "v = JArr new_items" by blast
    with Cons.prems(1) kv obtain merged where
      "merge_facts iteration_order (AList.update k (JArr merged) p) facts = Inr p'"
      by (auto simp: ebind_def split: sum.splits)
    from Cons.IH [OF this nin] ne show ?thesis by (simp add: map_of_update)
  next
    case False
    with Cons.prems(1) kv have
      "merge_facts iteration_order (AList.update k v p) facts = Inr p'"
      by (cases v) auto
    from Cons.IH [OF this nin] ne show ?thesis by (simp add: map_of_update)
  qed
qed

lemma merge_facts_total:
  assumes perm: "\<And>ys. mset (iteration_order ys) = mset ys"
  shows "string_lists facts \<Longrightarrow> string_lists p
     \<Longrightarrow> \<exists>p'. merge_facts iteration_order p facts = Inr p'"
proof (induction facts arbitrary: p)
  case Nil
  then show ?case by simp
next
  case (Cons kv facts)
  obtain k v where kv: "kv = (k, v)" by (cases kv)
  with Cons.prems have v: "string_items v" and facts: "string_lists facts"
    by (simp_all add: string_lists_def)
  show ?case
  proof (cases "\<exists>new_items. v = JArr new_items")
    case True
    then obtain new_items where vn: "v = JArr new_items" by blast
    with v have "list_all is_string (existing_list p k @ new_items)"
      using existing_list_strings [OF Cons.prems(2), of k] by (simp add: string_items_def)
    from py_list_of_set_strings [OF perm this] obtain merged where
      m: "py_list_of_set iteration_order (existing_list p k @ new_items) = Inr merged"
         "set merged = set (existing_list p k @ new_items)" by blast
    have "list_all is_string merged"
      using m(2) \<open>list_all is_string (existing_list p k @ new_items)\<close>
      by (simp add: list_all_iff)
    then have "string_lists (AList.update k (JArr merged) p)"
      using Cons.prems(2) by (intro string_lists_update) (simp_all add: string_items_def)
    from Cons.IH [OF facts this] m(1) kv vn show ?thesis
      by (simp add: ebind_def)
  next
    case False
    have "string_lists (AList.update k v p)"
      using Cons.prems(2) v by (rule string_lists_update)
    from Cons.IH [OF facts this] False kv show ?thesis
      by (cases v) auto
  qed
qed

text \<open>The merge at a list-valued key, in terms of the list that the loop reads.\<close>

lemma merge_facts_list_key:
  assumes perm: "\<And>ys. mset (iteration_order ys) = mset ys"
      and keys: "distinct (map fst facts)"
      and typed: "string_lists facts" "string_lists profile_data"
      and key: "(key, JArr new_items) \<in> set facts"
  shows "\<exists>merged_profile merged.
           merge_facts iteration_order profile_data facts = Inr merged_profile
         \<and> map_of merged_profile key = Some (JArr merged)
         \<and> distinct merged
         \<and> set merged = set (existing_list profile_data key) \<union> set new_items"
  using keys typed key
proof (induction facts arbitrary: profile_data)
  case Nil
  then show ?case by simp
next
  case (Cons kv facts)
  obtain k v where kv: "kv = (k, v)" by (cases kv)
  with Cons.prems have v: "string_items v" and facts: "string_lists facts"
    and dist: "distinct (map fst facts)" and knot: "k \<notin> fst ` set facts"
    by (simp_all add: string_lists_def)
  show ?case
  proof (cases "(key, JArr new_items) = (k, v)")
    case True
    then have kk: "k = key" and vv: "v = JArr new_items" by simp_all
    with v have str: "list_all is_string (existing_list profile_data key @ new_items)"
      using existing_list_strings [OF Cons.prems(3), of key] by (simp add: string_items_def)
    from py_list_of_set_strings [OF perm this] obtain merged where
      m: "py_list_of_set iteration_order (existing_list profile_data key @ new_items) = Inr merged"
         "distinct merged"
         "set merged = set (existing_list profile_data key @ new_items)" by blast
    have "list_all is_string merged"
      using m(3) str by (simp add: list_all_iff)
    then have typed': "string_lists (AList.update key (JArr merged) profile_data)"
      using Cons.prems(3) by (intro string_lists_update) (simp_all add: string_items_def)
    from merge_facts_total [OF perm facts typed'] obtain p' where
      p': "merge_facts iteration_order (AList.update key (JArr merged) profile_data) facts = Inr p'"
      by blast
    have "map_of p' key = Some (JArr merged)"
      using merge_facts_other_key [OF p'] knot kk by (simp add: map_of_update)
    with p' m kv kk vv show ?thesis
      by (simp add: ebind_def)
  next
    case False
    with Cons.prems(4) kv have inrest: "(key, JArr new_items) \<in> set facts" by auto
    then have ne: "key \<noteq> k" using knot by force
    show ?thesis
    proof (cases "\<exists>items. v = JArr items")
      case True
      then obtain items where vn: "v = JArr items" by blast
      with v have str: "list_all is_string (existing_list profile_data k @ items)"
        using existing_list_strings [OF Cons.prems(3), of k] by (simp add: string_items_def)
      from py_list_of_set_strings [OF perm this] obtain merged where
        m: "py_list_of_set iteration_order (existing_list profile_data k @ items) = Inr merged"
           "set merged = set (existing_list profile_data k @ items)" by blast
      have "list_all is_string merged"
        using m(2) str by (simp add: list_all_iff)
      then have typed': "string_lists (AList.update k (JArr merged) profile_data)"
        using Cons.prems(3) by (intro string_lists_update) (simp_all add: string_items_def)
      from Cons.IH [OF dist facts typed' inrest] m(1) kv vn ne show ?thesis
        by (simp add: ebind_def existing_list_update_other)
    next
      case False
      have typed': "string_lists (AList.update k v profile_data)"
        using Cons.prems(3) v by (rule string_lists_update)
      from Cons.IH [OF dist facts typed' inrest] False kv ne show ?thesis
        by (cases v) (simp_all add: existing_list_update_other)
    qed
  qed
qed

text \<open>
  Claim C2: let the set be listed in any order, and let profile and delta hold scalars
  and lists of strings, the delta with one entry per key. Then the merge succeeds, and
  for every delta key that holds a list the merged profile holds at that key a list
  without duplicates whose elements are exactly those of the list stored at that key in
  the existing profile (no elements when the key is absent or its value is not a list)
  and those of the delta list. Keys that the delta does not mention keep their values.
\<close>

theorem list_merge_is_set_union:
  assumes perm: "\<And>ys. mset (iteration_order ys) = mset ys"
      and keys: "distinct (map fst facts)"
      and typed: "string_lists facts" "string_lists profile_data"
      and key: "(key, JArr new_items) \<in> set facts"
  shows "\<exists>merged_profile merged.
           merge_facts iteration_order profile_data facts = Inr merged_profile
         \<and> map_of merged_profile key = Some (JArr merged)
         \<and> distinct merged
         \<and> set merged
             = (case map_of profile_data key of
                  Some (JArr stored) \<Rightarrow> set stored
                | _ \<Rightarrow> {}) \<union> set new_items
         \<and> (\<forall>k. k \<notin> fst ` set facts \<longrightarrow> map_of merged_profile k = map_of profile_data k)"
proof -
  obtain merged_profile merged where
    m: "merge_facts iteration_order profile_data facts = Inr merged_profile"
       "map_of merged_profile key = Some (JArr merged)"
       "distinct merged"
       "set merged = set (existing_list profile_data key) \<union> set new_items"
    using merge_facts_list_key [OF perm keys typed key] by blast
  have stored: "set (existing_list profile_data key)
                  = (case map_of profile_data key of
                       Some (JArr stored) \<Rightarrow> set stored
                     | _ \<Rightarrow> {})"
    by (simp add: existing_list_def split: option.splits json.splits)
  have others: "\<forall>k. k \<notin> fst ` set facts \<longrightarrow> map_of merged_profile k = map_of profile_data k"
    using merge_facts_other_key [OF m(1)] by blast
  show ?thesis
    using m(1,2,3) m(4) [unfolded stored] others by blast
qed

text \<open>The example of the specification, pets Bruno merged with Bruno and Whiskers; and
  a stored pet Rex that the delta does not name, which the merge keeps beside Bruno.\<close>

theorem list_merge_is_set_union_witness:
  "(\<forall>ys :: json list. mset (rev ys) = mset ys)
   \<and> distinct (map fst pets_delta) \<and> distinct (map fst bruno_delta)
   \<and> string_lists pets_delta \<and> string_lists bruno_profile
   \<and> string_lists bruno_delta \<and> string_lists rex_profile
   \<and> (''pets'', JArr [JStr ''Bruno'', JStr ''Whiskers'']) \<in> set pets_delta
   \<and> (''pets'', JArr [JStr ''Bruno'']) \<in> set bruno_delta
   \<and> (\<exists>merged_profile merged.
           merge_facts rev bruno_profile pets_delta = Inr merged_profile
         \<and> map_of merged_profile ''pets'' = Some (JArr merged)
         \<and> distinct merged
         \<and> set merged = {JStr ''Bruno'', JStr ''Whiskers''})
   \<and> (\<exists>merged_profile merged.
           merge_facts rev rex_profile bruno_delta = Inr merged_profile
         \<and> map_of merged_profile ''pets'' = Some (JArr merged)
         \<and> distinct merged
         \<and> set merged = {JStr ''Rex'', JStr ''Bruno''}
         \<and> map_of merged_profile ''name'' = Some (JStr ''Alex''))"
proof -
  have perm: "\<And>ys :: json list. mset (rev ys) = mset ys"
    by simp
  have keys: "distinct (map fst pets_delta)" "distinct (map fst bruno_delta)"
    by (simp_all add: pets_delta_def bruno_delta_def)
  have typed: "string_lists pets_delta" "string_lists bruno_profile"
              "string_lists bruno_delta" "string_lists rex_profile"
    by (simp_all add: string_lists_def string_items_def is_string_def pets_delta_def
                      bruno_profile_def bruno_delta_def rex_profile_def)
  have key: "(''pets'', JArr [JStr ''Bruno'', JStr ''Whiskers'']) \<in> set pets_delta"
            "(''pets'', JArr [JStr ''Bruno'']) \<in> set bruno_delta"
    by (simp_all add: pets_delta_def bruno_delta_def)
  have stored: "map_of bruno_profile ''pets'' = Some (JArr [JStr ''Bruno''])"
               "map_of rex_profile ''pets'' = Some (JArr [JStr ''Rex''])"
               "map_of rex_profile ''name'' = Some (JStr ''Alex'')"
               "''name'' \<notin> fst ` set bruno_delta"
    by (simp_all add: bruno_profile_def rex_profile_def bruno_delta_def)
  have first: "\<exists>merged_profile merged.
           merge_facts rev bruno_profile pets_delta = Inr merged_profile
         \<and> map_of merged_profile ''pets'' = Some (JArr merged)
         \<and> distinct merged
         \<and> set merged = {JStr ''Bruno'', JStr ''Whiskers''}"
    using list_merge_is_set_union [of rev, OF perm keys(1) typed(1,2) key(1)] stored(1)
    by auto
  have second: "\<exists>merged_profile merged.
           merge_facts rev rex_profile bruno_delta = Inr merged_profile
         \<and> map_of merged_profile ''pets'' = Some (JArr merged)
         \<and> distinct merged
         \<and> set merged = {JStr ''Rex'', JStr ''Bruno''}
         \<and> map_of merged_profile ''name'' = Some (JStr ''Alex'')"
    using list_merge_is_set_union [of rev, OF perm keys(2) typed(3,4) key(2)] stored(2,3,4)
    by auto
  show ?thesis
    using perm keys typed key first second by blast
qed

text \<open>The merged profile is what \<open>_store_user_facts\<close> persists: a later read returns
  it, stamped with \<open>last_updated\<close>.\<close>

lemma get_user_profile_after_update:
  "get_user_profile (mm\<lparr>user_profile_collection := [profile_record t P]\<rparr>)
     = ProfileFound P (metadata (profile_record t P))"
  by (simp add: get_user_profile_def coll_get_ids_def profile_record_def json_dumps_def
                json_loads_def)

lemma store_user_facts_persists:
  assumes perm: "\<And>ys. mset (iteration_order ys) = mset ys"
      and nonempty: "facts \<noteq> []"
      and typed: "string_lists facts" "string_lists p"
      and stored: "profile_of (get_user_profile mm) = Inr p"
      and only: "list_all (\<lambda>r. rec_id r = profile_id) (user_profile_collection mm)"
      and uniq: "distinct (map rec_id (user_profile_collection mm))"
  shows "\<exists>merged. merge_facts iteration_order p facts = Inr merged
           \<and> (case get_user_profile (store_user_facts iteration_order now timestamp facts mm) of
                 ProfileFound v md \<Rightarrow> v = JObj (AList.update ''last_updated'' (JStr now) merged)
               | _ \<Rightarrow> False)"
proof -
  obtain merged where m: "merge_facts iteration_order p facts = Inr merged"
    using merge_facts_total [OF perm typed] by blast
  let ?P = "JObj (AList.update ''last_updated'' (JStr now) merged)"
  have "store_user_facts iteration_order now timestamp facts mm
          = mm\<lparr>user_profile_collection := [profile_record timestamp ?P]\<rparr>"
    using nonempty stored m update_user_profile_sentinel [OF only uniq, of timestamp ?P]
    by (simp add: store_user_facts_def ebind_def)
  then show ?thesis
    using m by (simp add: get_user_profile_after_update)
qed

section \<open>Completing a task\<close>

text \<open>The update loop stamps \<open>completed_at\<close> on the transition into \<open>completed\<close>
  and leaves it alone when the task is completed already.\<close>

lemma apply_updates_first_completion:
  assumes "map_of task ''status'' = Some old" and "old \<noteq> JStr ''completed''"
  shows "apply_updates now [(''status'', JStr ''completed'')] task
           = Inr (AList.update ''status'' (JStr ''completed'')
                    (AList.update ''completed_at'' (JStr now) task))"
  using assms by (simp add: allowed_updates_def subscript_def ebind_def)

lemma apply_updates_repeated_completion:
  assumes "map_of task ''status'' = Some (JStr ''completed'')"
  shows "apply_updates now [(''status'', JStr ''completed'')] task
           = Inr (AList.update ''status'' (JStr ''completed'') task)"
  using assms by (simp add: allowed_updates_def subscript_def ebind_def)

lemma completed_at_stamped_once:
  assumes "map_of task ''status'' = Some old" and "old \<noteq> JStr ''completed''"
  shows "\<exists>t1 t2. apply_updates now1 [(''status'', JStr ''completed'')] task = Inr t1
           \<and> map_of t1 ''completed_at'' = Some (JStr now1)
           \<and> apply_updates now2 [(''status'', JStr ''completed'')] t1 = Inr t2
           \<and> map_of t2 ''completed_at'' = Some (JStr now1)"
proof -
  let ?t1 = "AList.update ''status'' (JStr ''completed'')
               (AList.update ''completed_at'' (JStr now1) task)"
  have 1: "apply_updates now1 [(''status'', JStr ''completed'')] task = Inr ?t1"
    using assms by (rule apply_updates_first_completion)
  have s: "map_of ?t1 ''status'' = Some (JStr ''completed'')"
    by (simp add: update_conv')
  have 2: "apply_updates now2 [(''status'', JStr ''completed'')] ?t1
             = Inr (AList.update ''status'' (JStr ''completed'') ?t1)"
    using s by (rule apply_updates_repeated_completion)
  show ?thesis
    using 1 2 by (simp add: update_conv')
qed

text \<open>With one stored task the two updates go through, and the second keeps the stamp of
  the first.\<close>

lemma one_task_completed_twice:
  "(case update_task ''2024-12-05T10:00:00+00:00'' ''2024-12-05T10:00:01+00:00'' ''task-1''
          [(''status'', JStr ''completed'')] one_task of
      (UpdateOk task celebrated, mm) \<Rightarrow>
        map_of task ''completed_at'' = Some (JStr ''2024-12-05T10:00:00+00:00'')
        \<and> (case update_task ''2024-12-06T10:00:00+00:00'' ''2024-12-06T10:00:01+00:00''
                   ''task-1'' [(''status'', JStr ''completed'')] mm of
              (UpdateOk task' celebrated', mm') \<Rightarrow>
                map_of task' ''completed_at'' = Some (JStr ''2024-12-05T10:00:00+00:00'')
            | _ \<Rightarrow> False)
    | _ \<Rightarrow> False)"
  by code_simp

text \<open>
  Claim C6 on the store \<open>two_tasks\<close>: two pending tasks of priority \<open>medium\<close> are
  stored, \<open>task-1\<close> without a due date and \<open>task-2\<close> with one. The sort of
  \<open>get_all_tasks\<close> compares the due dates \<open>None\<close> and a string, which raises
  TypeError, so the listing is empty; \<open>update_task\<close> then reports that the stored task
  \<open>task-1\<close> is not found, and \<open>completed_at\<close> is not stamped.
\<close>

theorem completion_lost_when_listing_fails:
  "map rec_id (important_memories_collection two_tasks) = [''task-1'', ''task-2'']
   \<and> map (\<lambda>r. map_of (metadata r) ''status'') (important_memories_collection two_tasks)
       = [Some (JStr ''pending''), Some (JStr ''pending'')]
   \<and> map (\<lambda>r. map_of (metadata r) ''due_date'') (important_memories_collection two_tasks)
       = [None, Some (JStr ''2025-01-01T00:00:00'')]
   \<and> get_all_tasks None None two_tasks = []
   \<and> update_task ''2024-12-05T10:00:00+00:00'' ''2024-12-05T10:00:01+00:00'' ''task-1''
        [(''status'', JStr ''completed'')] two_tasks
       = (UpdateNotFound, two_tasks)"
  by code_simp

end
